theory Spec2Isabelle
  imports Main
begin

section \<open>Tokens, values and the syntax tree\<close>

text \<open>
  The interpreter's \<^verbatim>\<open>Token\<close> is both a lexer token and a runtime value. Its header
  is not part of the sources at hand; the fields (type, lexeme, literal, line) and the
  tags are those the three source files \<^verbatim>\<open>env.cc\<close>, \<^verbatim>\<open>parser.cc\<close> and \<^verbatim>\<open>eval.cc\<close> use.
\<close>

datatype TokenType =
    LEFT_PAREN | RIGHT_PAREN | LEFT_BRACE | RIGHT_BRACE | SEMICOLON | COMMA
  | PLUS | MINUS | STAR | SLASH
  | BANG | BANG_EQUAL | EQUAL | EQUAL_EQUAL
  | GREATER | GREATER_EQUAL | LESS | LESS_EQUAL
  | LOG_AND | LOG_OR | NULLISH_COAL
  | NUMERICLITERAL | STRINGLITERAL | IDENTIFIER | C_IDENTIFIER
  | CLASS | FUN | VAR | FOR | IF | WHILE | PRINT | RETURN
  | NIL | TRUE | FALSE

text \<open>
  The payload \<^verbatim>\<open>std::any literal\<close> is a tagged value. The tags are the dynamic types
  the evaluator tests with \<^verbatim>\<open>typeid\<close>: a \<^verbatim>\<open>std::string\<close>, a string literal of the C++
  source (a \<^verbatim>\<open>const char*\<close>, as in \<^verbatim>\<open>Token(TokenType::TRUE, "true", "true", line)\<close>), an
  integer, a \<^verbatim>\<open>bool\<close>, \<^verbatim>\<open>nullptr\<close>, and a pointer to the block of a function. The
  integer types of the source are one unbounded \<open>int\<close> here and floating point payloads
  are left out.

  A block is its list of declarations; \<^verbatim>\<open>Block\<close> is itself a declaration, since
  \<^verbatim>\<open>Parser::program\<close> stores the result of \<^verbatim>\<open>block()\<close> among its declarations. A
  \<^verbatim>\<open>std::unique_ptr\<close> that the source tests for, or may set to, \<^verbatim>\<open>nullptr\<close> is an option.
\<close>

datatype any =
    AnyString string
  | AnyCStr string
  | AnyInt int
  | AnyBool bool
  | AnyNull
  | AnyBlock "Decl list"
and Token = Token (type: TokenType) (lexeme: string) (literal: any) (line: int)
and Expr =
    Literal Token
  | Unary Token Expr
  | Binary Expr Token Expr
  | Grouping Expr
  | Assign Token Expr
  | Ternary Expr Expr Expr
  | Call Expr "Expr list"
and Stmt =
    StmtExpr "Expr option"
  | StmtPrint "Expr option"
  | StmtReturn Expr
and Decl =
    DeclStmt Stmt
  | DeclVar Token "Expr option"
  | DeclFunc Token "Token list" "Decl list option"
  | Block "Decl list"

type_synonym Tokens = "Token list"

datatype Program = Program "Decl list"

section \<open>Environment\<close>

text \<open>
  \<^verbatim>\<open>Environment\<close> has the fields \<^verbatim>\<open>values\<close> (an unordered map from names to tokens,
  here \<open>values_map\<close>) and \<^verbatim>\<open>child\<close> (the nested scope, or \<^verbatim>\<open>nullptr\<close>).
\<close>

datatype Environment =
  Environment (values_map: "string \<rightharpoonup> Token") (child: "Environment option")

text \<open>
  Modelled from the spec: the default constructor \<^verbatim>\<open>Token()\<close> lives in the missing
  token header. The spec gives the sentinel the type \<open>NIL\<close> and the empty lexeme; the
  payload and the line of the sentinel are not described and are fixed here as an
  integer 0 and line 0.
\<close>

definition Token0 :: Token where
  "Token0 = Token NIL [] (AnyInt 0) 0"

text \<open>\<^verbatim>\<open>Environment::getEnv\<close> (env.cc, lines 22 to 32).\<close>

fun getEnv :: "Environment \<Rightarrow> string \<Rightarrow> Token" where
  "getEnv (Environment vals ch) name =
     (case vals name of
        None \<Rightarrow> (case ch of Some c \<Rightarrow> getEnv c name | None \<Rightarrow> Token0)
      | Some t \<Rightarrow> t)"

text \<open>\<^verbatim>\<open>Environment::setEnv\<close> (env.cc, lines 34 to 45).\<close>

fun setEnv :: "Environment \<Rightarrow> string \<Rightarrow> Token \<Rightarrow> Environment" where
  "setEnv (Environment vals ch) name v =
     (if vals name \<noteq> None then Environment (vals(name \<mapsto> v)) ch
      else (case ch of
              Some c \<Rightarrow> Environment vals (Some (setEnv c name v))
            | None \<Rightarrow> Environment (vals(name \<mapsto> v)) None))"

text \<open>
  Modelled from the spec: \<^verbatim>\<open>addChild\<close> and \<^verbatim>\<open>removeChild\<close> are declared in the missing
  environment header. The spec: \<^verbatim>\<open>addChild\<close> appends a fresh empty scope at the deepest
  position (walk to the leaf, then set its child); \<^verbatim>\<open>removeChild\<close> pops the deepest scope
  (walk to the parent of the leaf; clear its child). On a chain that is the root alone
  there is no parent of the leaf, and \<open>removeChild\<close> leaves the chain as it is.
\<close>

fun addChild :: "Environment \<Rightarrow> Environment" where
  "addChild (Environment vals ch) =
     (case ch of
        None \<Rightarrow> Environment vals (Some (Environment Map.empty None))
      | Some c \<Rightarrow> Environment vals (Some (addChild c)))"

fun removeChild :: "Environment \<Rightarrow> Environment" where
  "removeChild (Environment vals ch) =
     (case ch of
        None \<Rightarrow> Environment vals None
      | Some c \<Rightarrow>
          (case child c of
             None \<Rightarrow> Environment vals None
           | Some _ \<Rightarrow> Environment vals (Some (removeChild c))))"

text \<open>The scopes of a chain from the root (outermost) to the leaf (innermost).\<close>

fun scopes :: "Environment \<Rightarrow> (string \<rightharpoonup> Token) list" where
  "scopes (Environment vals ch) =
     vals # (case ch of None \<Rightarrow> [] | Some c \<Rightarrow> scopes c)"

definition scopeDepth :: "Environment \<Rightarrow> nat" where
  "scopeDepth e = length (scopes e)"

text \<open>
  The lookup as the specification words it: the binding of the outermost scope of the
  chain that contains the name, and the sentinel when no scope contains it.
\<close>

definition outermost_binding :: "(string \<rightharpoonup> Token) list \<Rightarrow> string \<Rightarrow> Token" where
  "outermost_binding ss name =
     (case List.find (\<lambda>m. m name \<noteq> None) ss of
        None \<Rightarrow> Token0
      | Some m \<Rightarrow> the (m name))"

section \<open>Value helpers\<close>

text \<open>
  Modelled from the spec: the helpers \<^verbatim>\<open>isNumber\<close>, \<^verbatim>\<open>isString\<close>, \<^verbatim>\<open>castString\<close>,
  \<^verbatim>\<open>castNumberString\<close>, \<^verbatim>\<open>castAnyString\<close>, \<^verbatim>\<open>truthy\<close> and \<^verbatim>\<open>any_arithmetic\<close> are
  declared in missing headers. The spec: \<^verbatim>\<open>isNumber(tok)\<close> is
  \<^verbatim>\<open>tok.type == NUMERICLITERAL\<close>, \<^verbatim>\<open>isString(tok)\<close> is \<^verbatim>\<open>tok.type == STRINGLITERAL\<close>; the
  three casts stringify a token (its string form is the lexeme: the evaluator builds a
  string value as \<^verbatim>\<open>Token(STRINGLITERAL, text, 0, line)\<close> and a number as
  \<^verbatim>\<open>Token(NUMERICLITERAL, std::to_string(n), n, line)\<close>); truthiness is false for
  \<open>FALSE\<close> and \<open>NIL\<close> and true for every other token; \<^verbatim>\<open>any_arithmetic\<close> dispatches over
  the numeric payloads of both sides and returns a number, or a boolean for comparisons.
  In the model it has no result when a payload is not a number, when the operator is
  none of these, and on a division by zero.
\<close>

definition isNumber :: "Token \<Rightarrow> bool" where
  "isNumber tok = (type tok = NUMERICLITERAL)"

definition isString :: "Token \<Rightarrow> bool" where
  "isString tok = (type tok = STRINGLITERAL)"

definition castString :: "Token \<Rightarrow> string" where
  "castString tok = lexeme tok"

definition castAnyString :: "Token \<Rightarrow> string" where
  "castAnyString tok = lexeme tok"

definition truthy :: "Token \<Rightarrow> bool" where
  "truthy tok = (type tok \<noteq> FALSE \<and> type tok \<noteq> NIL)"

text \<open>\<^verbatim>\<open>std::to_string\<close> on an integer: the decimal digits, with a minus sign.\<close>

fun digits :: "nat \<Rightarrow> string" where
  "digits n =
     (if n < 10 then [''0123456789'' ! n]
      else digits (n div 10) @ [''0123456789'' ! (n mod 10)])"

declare digits.simps [simp del]

definition to_string :: "int \<Rightarrow> string" where
  "to_string i = (if i < 0 then CHR ''-'' # digits (nat (- i)) else digits (nat i))"

definition castNumberString :: "Token \<Rightarrow> string" where
  "castNumberString tok = lexeme tok"

text \<open>\<^verbatim>\<open>castNumberString\<close> on the result of \<^verbatim>\<open>any_arithmetic\<close>.\<close>

definition castNumberString_any :: "any \<Rightarrow> string" where
  "castNumberString_any a =
     (case a of
        AnyInt i \<Rightarrow> to_string i
      | AnyBool b \<Rightarrow> to_string (if b then 1 else 0)
      | _ \<Rightarrow> [])"

definition cdiv :: "int \<Rightarrow> int \<Rightarrow> int" where
  \<comment> \<open>integer division of C++: the quotient is truncated towards zero\<close>
  "cdiv a b = sgn a * sgn b * (\<bar>a\<bar> div \<bar>b\<bar>)"

definition any_arithmetic :: "Token \<Rightarrow> Token \<Rightarrow> Token \<Rightarrow> any option" where
  "any_arithmetic left right op =
     (case (literal left, literal right) of
        (AnyInt a, AnyInt b) \<Rightarrow>
          (case type op of
             PLUS \<Rightarrow> Some (AnyInt (a + b))
           | MINUS \<Rightarrow> Some (AnyInt (a - b))
           | STAR \<Rightarrow> Some (AnyInt (a * b))
           | SLASH \<Rightarrow> (if b = 0 then None else Some (AnyInt (cdiv a b)))
           | EQUAL_EQUAL \<Rightarrow> Some (AnyBool (a = b))
           | BANG_EQUAL \<Rightarrow> Some (AnyBool (a \<noteq> b))
           | LESS \<Rightarrow> Some (AnyBool (a < b))
           | LESS_EQUAL \<Rightarrow> Some (AnyBool (a \<le> b))
           | GREATER \<Rightarrow> Some (AnyBool (a > b))
           | GREATER_EQUAL \<Rightarrow> Some (AnyBool (a \<ge> b))
           | _ \<Rightarrow> None)
      | _ \<Rightarrow> None)"

text \<open>
  \<^verbatim>\<open>strcmp\<close> on the \<^verbatim>\<open>c_str()\<close> of two strings: the bytes up to the first NUL are
  compared as unsigned values; only the sign of the result is used.
\<close>

definition c_str :: "string \<Rightarrow> string" where
  "c_str s = takeWhile (\<lambda>c. c \<noteq> CHR 0x00) s"

fun strcmp :: "string \<Rightarrow> string \<Rightarrow> int" where
  "strcmp [] [] = 0"
| "strcmp [] (b # bs) = - 1"
| "strcmp (a # as) [] = 1"
| "strcmp (a # as) (b # bs) =
     (if a = b then strcmp as bs
      else if (of_char a :: nat) < of_char b then - 1 else 1)"

text \<open>
  \<^verbatim>\<open>std::string::substr(pos, n)\<close> throws \<^verbatim>\<open>std::out_of_range\<close> when \<open>pos\<close> is beyond the
  size and takes at most \<open>n\<close> characters otherwise; \<open>n\<close> is a \<^verbatim>\<open>size_t\<close>, so the
  \<^verbatim>\<open>size() - 2\<close> of the source wraps around on a string shorter than two characters.
\<close>

definition size_minus_2 :: "string \<Rightarrow> nat" where
  "size_minus_2 s = (length s + 2 ^ 64 - 2) mod 2 ^ 64"

definition substr :: "string \<Rightarrow> nat \<Rightarrow> nat \<Rightarrow> string option" where
  "substr s pos n = (if pos > length s then None else Some (take n (drop pos s)))"

definition dquote :: char where
  "dquote = CHR 0x22"

definition apostrophe :: string where
  "apostrophe = [CHR 0x27]"

section \<open>Evaluator\<close>

text \<open>
  The evaluator reads and writes the process-wide environment and writes lines to the
  standard output: both are the state \<open>World\<close> that every visitor takes and returns.

  An exception of the C++ code is the outcome \<open>Raised\<close>, with the state at the time of
  the throw: \<^verbatim>\<open>rift::error::runTimeError\<close> raises a runtime error with its message
  (see below),
  \<^verbatim>\<open>visit_return_stmt\<close> throws \<^verbatim>\<open>StmtReturnException\<close>, \<^verbatim>\<open>std::string::at\<close> throws
  \<^verbatim>\<open>std::out_of_range\<close>, a \<^verbatim>\<open>std::any_cast\<close> to another type than the payload's throws
  \<^verbatim>\<open>std::bad_any_cast\<close>. Where the C++ code would dereference a null pointer the model
  stops with \<open>NullDereference\<close>. Every visitor takes a number of steps it may still
  unfold (each call of \<^verbatim>\<open>accept\<close> uses one); \<open>Timeout\<close> is the outcome of running out
  of them and is no outcome of the C++ code.
\<close>

datatype exn =
    RuntimeError string
  | StmtReturnException Token
  | OutOfRange
  | BadAnyCast
  | NullDereference

record World =
  env :: Environment
  out :: "string list"

datatype 'a outcome = Done 'a World | Raised exn World | Timeout

definition andThen :: "'a outcome \<Rightarrow> ('a \<Rightarrow> World \<Rightarrow> 'b outcome) \<Rightarrow> 'b outcome" where
  "andThen m f =
     (case m of Done a w \<Rightarrow> f a w | Raised x w \<Rightarrow> Raised x w | Timeout \<Rightarrow> Timeout)"

text \<open>
  Modelled from the spec: \<^verbatim>\<open>rift::error::runTimeError\<close> is declared in the missing error
  header. The spec: \<^verbatim>\<open>runTimeError(message)\<close> raises a runtime exception.
\<close>

definition runTimeError :: "string \<Rightarrow> World \<Rightarrow> 'a outcome" where
  "runTimeError msg w = Raised (RuntimeError msg) w"

text \<open>The tokens \<^verbatim>\<open>Token(TokenType::TRUE, "true", "true", line)\<close> and its \<open>FALSE\<close> twin.\<close>

definition true_tok :: "int \<Rightarrow> Token" where
  "true_tok ln = Token TRUE ''true'' (AnyCStr ''true'') ln"

definition false_tok :: "int \<Rightarrow> Token" where
  "false_tok ln = Token FALSE ''false'' (AnyCStr ''false'') ln"

text \<open>
  \<^verbatim>\<open>Visitor::visit_literal\<close> (eval.cc, lines 63 to 113). The chain of \<^verbatim>\<open>typeid\<close> tests
  is the case distinction on the payload; a payload that is neither a string, a number,
  \<^verbatim>\<open>nullptr\<close> nor a \<^verbatim>\<open>bool\<close> reaches the test for a function binding.
\<close>

definition visit_literal :: "World \<Rightarrow> Token \<Rightarrow> Token outcome" where
  "visit_literal w val =
     (let res = getEnv (env w) (castString val) in
      if type val = NIL then Done (Token NIL ''nil'' AnyNull (line val)) w
      else if type val = IDENTIFIER \<or> type val = C_IDENTIFIER then
        if type res = NIL then
          runTimeError (''Undefined variable '' @ apostrophe @ castString val @ apostrophe) w
        else
          (case literal res of
             AnyString s \<Rightarrow> Done (Token STRINGLITERAL s (AnyInt 0) (line val)) w
           | AnyInt i \<Rightarrow> Done (Token NUMERICLITERAL (to_string i) (AnyInt i) (line val)) w
           | AnyNull \<Rightarrow> Done (Token NIL ''nil'' AnyNull (line val)) w
           | AnyBool b \<Rightarrow>
               Done (Token (if b then TRUE else FALSE) (to_string (if b then 1 else 0))
                       (AnyBool b) (line val)) w
           | _ \<Rightarrow> if type res = FUN then Done res w
                  else runTimeError ''Unknown literal type'' w)
      else
        (case literal val of
           AnyString s \<Rightarrow> Done (Token STRINGLITERAL s (AnyInt 0) (line val)) w
         | AnyInt i \<Rightarrow> Done (Token NUMERICLITERAL (to_string i) (AnyInt i) (line val)) w
         | AnyNull \<Rightarrow> Done (Token NIL ''nil'' AnyNull (line val)) w
         | AnyBool b \<Rightarrow>
             Done (Token (if b then TRUE else FALSE) (to_string (if b then 1 else 0))
                     (AnyBool b) (line val)) w
         | _ \<Rightarrow> if type res = FUN then Done res w
                else runTimeError ''Unknown literal type'' w))"

text \<open>
  Modelled from the spec: the macro \<^verbatim>\<open>_BOOL_LOGIC\<close> of the missing \<^verbatim>\<open>utils/macros.hh\<close>.
  The spec: the comparisons other than \<open>></\<close> share a logic macro that operates on the
  string forms and produces \<open>TRUE\<close> or \<open>FALSE\<close> tokens.
\<close>

definition BOOL_LOGIC :: "Token \<Rightarrow> Token \<Rightarrow> Token \<Rightarrow> Token" where
  "BOOL_LOGIC left right op =
     (let c = strcmp (c_str (castString left)) (c_str (castString right));
          b = (case type op of
                 GREATER_EQUAL \<Rightarrow> c \<ge> 0
               | LESS \<Rightarrow> c < 0
               | LESS_EQUAL \<Rightarrow> c \<le> 0
               | BANG_EQUAL \<Rightarrow> c \<noteq> 0
               | EQUAL_EQUAL \<Rightarrow> c = 0
               | _ \<Rightarrow> False)
      in if b then true_tok (line op) else false_tok (line op))"

text \<open>Stripping a pair of surrounding double quotes, as \<^verbatim>\<open>visit_binary\<close> does for \<open>+\<close>.\<close>

definition strip_quotes :: "string \<Rightarrow> string option" where
  \<comment> \<open>\<^verbatim>\<open>s[0]\<close> of an empty \<^verbatim>\<open>std::string\<close> is its terminating NUL\<close>
  "strip_quotes s =
     (if (if s = [] then CHR 0x00 else hd s) = dquote
         \<and> (if s = [] then CHR 0x00 else last s) = dquote
      then substr s 1 (size_minus_2 s) else Some s)"

text \<open>
  The second \<^verbatim>\<open>switch\<close> of \<^verbatim>\<open>Visitor::visit_binary\<close> (eval.cc, lines 159 to 216): the
  operators that work on both evaluated operands.
\<close>

definition arithmetic_result :: "Token \<Rightarrow> Token \<Rightarrow> Token \<Rightarrow> World \<Rightarrow> Token outcome" where
  "arithmetic_result left right op w =
     (case any_arithmetic left right op of
        None \<Rightarrow> Raised BadAnyCast w
      | Some resAny \<Rightarrow> Done (Token NUMERICLITERAL (castNumberString_any resAny) resAny (line op)) w)"

definition binary_both :: "Token \<Rightarrow> Token \<Rightarrow> Token \<Rightarrow> World \<Rightarrow> Token outcome" where
  "binary_both left right op w =
     (case type op of
        MINUS \<Rightarrow>
          if \<not> isNumber left \<and> \<not> isNumber right
          then runTimeError (''Expected a number for '' @ apostrophe @ ''-'' @ apostrophe @ '' operator'') w
          else arithmetic_result left right op w
      | PLUS \<Rightarrow>
          if (\<not> isNumber left \<and> \<not> isNumber right) \<and> (\<not> isString left \<and> \<not> isString right)
          then runTimeError (''Expected a number or string for '' @ apostrophe @ ''+'' @ apostrophe @ '' operator'') w
          else if isNumber left \<and> isNumber right then arithmetic_result left right op w
          else if isString left \<and> isString right then
            (case (strip_quotes (castString left), strip_quotes (castString right)) of
               (Some l_s, Some r_s) \<Rightarrow> Done (Token STRINGLITERAL (l_s @ r_s) (AnyInt 0) (line op)) w
             | _ \<Rightarrow> Raised OutOfRange w)
          else if isString left \<and> isNumber right then
            Done (Token STRINGLITERAL (castString left @ castNumberString right) (AnyInt 0) (line op)) w
          else if isNumber left \<and> isString right then
            Done (Token STRINGLITERAL (castNumberString left @ castString right) (AnyInt 0) (line op)) w
          else runTimeError (''Expected a number or string for '' @ apostrophe @ ''+'' @ apostrophe @ '' operator'') w
      | SLASH \<Rightarrow>
          if \<not> isNumber left \<and> \<not> isNumber right
          then runTimeError (''Expected a number for '' @ apostrophe @ ''-'' @ apostrophe @ '' operator'') w
          else arithmetic_result left right op w
      | STAR \<Rightarrow>
          if \<not> isNumber left \<and> \<not> isNumber right
          then runTimeError (''Expected a number for '' @ apostrophe @ ''*'' @ apostrophe @ '' operator'') w
          else arithmetic_result left right op w
      | GREATER \<Rightarrow>
          if strcmp (c_str (castString left)) (c_str (castString right)) > 0
          then Done (true_tok (line op)) w
          else Done (false_tok (line op)) w
      | GREATER_EQUAL \<Rightarrow> Done (BOOL_LOGIC left right op) w
      | LESS \<Rightarrow> Done (BOOL_LOGIC left right op) w
      | LESS_EQUAL \<Rightarrow> Done (BOOL_LOGIC left right op) w
      | BANG_EQUAL \<Rightarrow> Done (BOOL_LOGIC left right op) w
      | EQUAL_EQUAL \<Rightarrow> Done (BOOL_LOGIC left right op) w
      | _ \<Rightarrow> runTimeError ''Unknown operator for a binary expression'' w)"

text \<open>
  The operator cases of \<^verbatim>\<open>Visitor::visit_unary\<close> (eval.cc, lines 239 to 260), on the
  evaluated operand.
\<close>

definition unary_on :: "Token \<Rightarrow> Token \<Rightarrow> World \<Rightarrow> Token outcome" where
  "unary_on right op w =
     (case type op of
        MINUS \<Rightarrow>
          if \<not> isNumber right
          then runTimeError (''Expected a number after '' @ apostrophe @ ''-'' @ apostrophe @ '' operator'') w
          else arithmetic_result right (Token NUMERICLITERAL ''-1'' (AnyInt (- 1)) (line op))
                 (Token STAR ''-'' (AnyCStr []) (line op)) w
      | BANG \<Rightarrow>
          if type right = TRUE \<or> type right = FALSE then
            (let res = truthy right in
             Done (Token (if res then TRUE else FALSE) (to_string (if \<not> res then 1 else 0))
                     (AnyBool (\<not> res)) (line op)) w)
          else if isNumber right then
            (case any_arithmetic right (Token NUMERICLITERAL ''0'' (AnyInt 0) (line op))
                    (Token EQUAL_EQUAL ''=='' (AnyCStr []) (line op)) of
               Some (AnyBool res) \<Rightarrow>
                 Done (Token (if res then TRUE else FALSE) (to_string (if \<not> res then 1 else 0))
                         (AnyBool (\<not> res)) (line op)) w
             | _ \<Rightarrow> Raised BadAnyCast w)
          else if isString right then
            (let res = (castString right = []) in
             Done (Token (if res then TRUE else FALSE) (to_string (if \<not> res then 1 else 0))
                     (AnyBool (\<not> res)) (line op)) w)
          else runTimeError (''Expected a number or string after '' @ apostrophe @ ''!'' @ apostrophe @ '' operator'') w
      | _ \<Rightarrow> runTimeError ''Unknown operator for a unary expression'' w)"

text \<open>
  The output step of \<^verbatim>\<open>Visitor::visit_print_stmt\<close> (eval.cc, lines 305 to 309), on the
  evaluated value: \<^verbatim>\<open>res.at(0)\<close> throws on the empty string.
\<close>

definition print_value :: "Token \<Rightarrow> World \<Rightarrow> Token outcome" where
  "print_value val w =
     (let res = castAnyString val in
      if res = [] then Raised OutOfRange w
      else if hd res = dquote \<and> last res = dquote then
        (case substr res 1 (size_minus_2 res) of
           None \<Rightarrow> Raised OutOfRange w
         | Some res' \<Rightarrow> Done val (w\<lparr>out := out w @ [res']\<rparr>))
      else Done val (w\<lparr>out := out w @ [res]\<rparr>))"

text \<open>
  The visitors. \<open>accept_expr\<close>, \<open>accept_stmt\<close> and \<open>accept_decl\<close> are the virtual
  \<^verbatim>\<open>accept\<close> of the three node classes, which calls the visitor of the node; the equations
  are, in this order, \<^verbatim>\<open>visit_literal\<close>, \<^verbatim>\<open>visit_grouping\<close>, \<^verbatim>\<open>visit_unary\<close>,
  \<^verbatim>\<open>visit_binary\<close>, \<^verbatim>\<open>visit_assign\<close>, \<^verbatim>\<open>visit_ternary\<close>, \<^verbatim>\<open>visit_call\<close>; the loop over the
  arguments of a call; \<^verbatim>\<open>visit_expr_stmt\<close>, \<^verbatim>\<open>visit_print_stmt\<close>, \<^verbatim>\<open>visit_return_stmt\<close>;
  \<^verbatim>\<open>visit_decl_stmt\<close>, \<^verbatim>\<open>visit_decl_var\<close>, \<^verbatim>\<open>visit_decl_func\<close>, \<^verbatim>\<open>visit_block_stmt\<close>; and
  \<open>accept_decls\<close>, the loop over the declarations of \<^verbatim>\<open>visit_block_stmt\<close> and of
  \<^verbatim>\<open>visit_program\<close>.

  Modelled from the spec: the three-argument \<^verbatim>\<open>setEnv\<close> that the evaluator calls, with
  a flag for constant identifiers, is declared in the missing environment header. The
  spec gives \<^verbatim>\<open>set(name, value, is_const_identifier)\<close> the behaviour of \<open>setEnv\<close> above
  (overwrite at the first scope from the root that has the name, else bind at the
  deepest scope) and says nothing the flag changes.
  \<^verbatim>\<open>visit_decl_func\<close> moves the block out of the node it visits; the model does not
  empty the node, which matters only where the same declaration node is visited twice.
  The visitors \<^verbatim>\<open>visit_if_stmt\<close> (which moves the condition out of the node it visits)
  and \<^verbatim>\<open>visit_for\<close> are not embedded: the parser at hand builds neither node and no
  property below is about them.
\<close>

fun accept_expr :: "nat \<Rightarrow> World \<Rightarrow> Expr \<Rightarrow> Token outcome"
and accept_args :: "nat \<Rightarrow> World \<Rightarrow> Expr list \<Rightarrow> Tokens outcome"
and accept_stmt :: "nat \<Rightarrow> World \<Rightarrow> Stmt \<Rightarrow> Token outcome"
and accept_decl :: "nat \<Rightarrow> World \<Rightarrow> Decl \<Rightarrow> Tokens outcome"
and accept_decls :: "nat \<Rightarrow> World \<Rightarrow> Decl list \<Rightarrow> Tokens outcome"
where
  "accept_expr 0 w e = Timeout"
| "accept_expr (Suc n) w (Literal val) = visit_literal w val"
| "accept_expr (Suc n) w (Grouping e) = accept_expr n w e"
| "accept_expr (Suc n) w (Unary op e) =
     andThen (accept_expr n w e) (\<lambda>right w1. unary_on right op w1)"
| "accept_expr (Suc n) w (Binary l op r) =
     (if type op = NULLISH_COAL then
        andThen (accept_expr n w l) (\<lambda>left w1.
          if type left = NIL then accept_expr n w1 r else Done left w1)
      else if type op = LOG_AND then
        andThen (accept_expr n w l) (\<lambda>left w1.
          if truthy left then
            andThen (accept_expr n w1 r) (\<lambda>right w2.
              if truthy right then Done (true_tok (line op)) w2
              else Done (false_tok (line op)) w2)
          else Done Token0 w1)
      else if type op = LOG_OR then
        andThen (accept_expr n w l) (\<lambda>left w1.
          if truthy left then
            andThen (accept_expr n w1 r) (\<lambda>right w2. Done (true_tok (line op)) w2)
          else
            andThen (accept_expr n w1 l) (\<lambda>right w2.
              if truthy right then Done (true_tok (line op)) w2
              else Done (false_tok (line op)) w2))
      else
        andThen (accept_expr n w l) (\<lambda>left w1.
          andThen (accept_expr n w1 r) (\<lambda>right w2. binary_both left right op w2)))"
| "accept_expr (Suc n) w (Assign name v) =
     andThen (accept_expr n w v) (\<lambda>val w1.
       let w2 = w1\<lparr>env := setEnv (env w1) (castString name) val\<rparr>
       in Done (getEnv (env w2) (castString name)) w2)"
| "accept_expr (Suc n) w (Ternary c l r) =
     andThen (accept_expr n w c) (\<lambda>cond w1.
       if truthy cond then accept_expr n w1 l else accept_expr n w1 r)"
| "accept_expr (Suc n) w (Call callee args) =
     andThen (accept_expr n w callee) (\<lambda>name w1.
       if type name = NIL
       then runTimeError (''Undefined function '' @ apostrophe @ lexeme name @ apostrophe) w1
       else
         andThen (accept_args n w1 args) (\<lambda>argv w2.
           case literal name of
             AnyBlock blk \<Rightarrow>
               (case accept_decl n w2 (Block blk) of
                  Done res w3 \<Rightarrow> Done Token0 w3
                | Raised (StmtReturnException tok) w3 \<Rightarrow> Done tok w3
                | Raised x w3 \<Rightarrow> Raised x w3
                | Timeout \<Rightarrow> Timeout)
           | _ \<Rightarrow> Raised BadAnyCast w2))"
| "accept_args 0 w args = Timeout"
| "accept_args (Suc n) w [] = Done [] w"
| "accept_args (Suc n) w (a # args) =
     andThen (accept_expr n w a) (\<lambda>v w1.
       andThen (accept_args n w1 args) (\<lambda>vs w2. Done (v # vs) w2))"
| "accept_stmt 0 w s = Timeout"
| "accept_stmt (Suc n) w (StmtExpr eo) =
     (case eo of None \<Rightarrow> Raised NullDereference w | Some e \<Rightarrow> accept_expr n w e)"
| "accept_stmt (Suc n) w (StmtPrint eo) =
     (case eo of
        None \<Rightarrow> Raised NullDereference w
      | Some e \<Rightarrow> andThen (accept_expr n w e) print_value)"
| "accept_stmt (Suc n) w (StmtReturn e) =
     andThen (accept_expr n w e) (\<lambda>val w1. Raised (StmtReturnException val) w1)"
| "accept_decl 0 w d = Timeout"
| "accept_decl (Suc n) w (DeclStmt s) =
     andThen (accept_stmt n w s) (\<lambda>tok w1. Done [tok] w1)"
| "accept_decl (Suc n) w (DeclVar identifier eo) =
     (case eo of
        Some e \<Rightarrow> andThen (accept_expr n w e) (\<lambda>tok w1. Done [tok] w1)
      | None \<Rightarrow>
          (let niltok = Token NIL ''null'' AnyNull (line identifier)
           in Done [niltok] (w\<lparr>env := setEnv (env w) (lexeme identifier) niltok\<rparr>)))"
| "accept_decl (Suc n) w (DeclFunc name params blk) =
     (if type (getEnv (env w) (castString name)) \<noteq> NIL
      then runTimeError (''Function '' @ apostrophe @ lexeme name @ apostrophe @ '' already defined'') w
      else
        (case blk of
           Some b \<Rightarrow>
             Done [name] (w\<lparr>env := setEnv (env w) (castString name)
                                     (Token FUN ''function'' (AnyBlock b) (line name))\<rparr>)
         | None \<Rightarrow>
             Done [name] (w\<lparr>env := setEnv (env w) (castString name)
                                     (Token NIL ''null'' AnyNull (line name))\<rparr>)))"
| "accept_decl (Suc n) w (Block decls) =
     andThen (accept_decls n (w\<lparr>env := addChild (env w)\<rparr>) decls) (\<lambda>toks w1.
       Done toks (w1\<lparr>env := removeChild (env w1)\<rparr>))"
| "accept_decls 0 w ds = Timeout"
| "accept_decls (Suc n) w [] = Done [] w"
| "accept_decls (Suc n) w (d # ds) =
     andThen (accept_decl n w d) (\<lambda>its w1.
       andThen (accept_decls n w1 ds) (\<lambda>rest w2. Done (its @ rest) w2))"

text \<open>\<^verbatim>\<open>Visitor::visit_program\<close> (eval.cc, lines 372 to 380): no scope is pushed.\<close>

definition visit_program :: "nat \<Rightarrow> World \<Rightarrow> Program \<Rightarrow> Tokens outcome" where
  "visit_program n w prgm = (case prgm of Program decls \<Rightarrow> accept_decls n w decls)"

text \<open>The state of a fresh process: the global scope alone, nothing written yet.\<close>

definition world0 :: World where
  "world0 = \<lparr>env = Environment Map.empty None, out = []\<rparr>"

section \<open>Parser\<close>

text \<open>
  The state of the parser: the token vector, the cursor \<^verbatim>\<open>current\<close> and the member
  \<^verbatim>\<open>line\<close> (here \<open>line_no\<close>, since \<open>line\<close> is the field of a token).
\<close>

record Parser =
  tokens :: "Token list"
  current :: nat
  line_no :: int

text \<open>
  A parsing function returns its value with the state after it, or raises
  \<^verbatim>\<open>ParserException\<close> with a message. As in the evaluator every function takes a number
  of calls it may still unfold; \<open>PFuel\<close> is the outcome of running out of them and is
  no outcome of the C++ code.
\<close>

datatype 'a presult = POk 'a Parser | PErr string | PFuel

definition pbind :: "'a presult \<Rightarrow> ('a \<Rightarrow> Parser \<Rightarrow> 'b presult) \<Rightarrow> 'b presult" where
  "pbind m f = (case m of POk a p \<Rightarrow> f a p | PErr msg \<Rightarrow> PErr msg | PFuel \<Rightarrow> PFuel)"

text \<open>
  Modelled from the spec: the utilities of the missing parser header. The spec names
  \<^verbatim>\<open>peek()\<close>, \<^verbatim>\<open>peekPrev(k=1)\<close>, \<^verbatim>\<open>peekNext()\<close>, \<^verbatim>\<open>advance()\<close>, \<^verbatim>\<open>prevance()\<close> (rewind one),
  \<^verbatim>\<open>match({types})\<close> (consume if matches), \<^verbatim>\<open>match_kw(type)\<close> (consume if keyword) and
  \<^verbatim>\<open>consume(expected, error)\<close> (advance or raise \<^verbatim>\<open>ParserException\<close>). The tokens the
  parser passes to them carry a type and often an empty lexeme, so they compare types.
  The end of the input is the end of the token vector, and a peek beyond either end of
  the vector gives the default token. In the model \<open>match\<close> is the test alone and the
  caller advances the cursor where the test holds. \<^verbatim>\<open>rift::error::report\<close> records a
  diagnostic and raises the exception it is given.

  The comparison \<^verbatim>\<open>==\<close> of two tokens is in the missing token header too; following the
  sentinel contract of the spec it compares the type and the lexeme.
\<close>

definition atEnd :: "Parser \<Rightarrow> bool" where
  "atEnd p = (current p \<ge> length (tokens p))"

definition peek :: "Parser \<Rightarrow> Token" where
  "peek p = (if current p < length (tokens p) then tokens p ! current p else Token0)"

definition peekNext :: "Parser \<Rightarrow> Token" where
  "peekNext p =
     (if current p + 1 < length (tokens p) then tokens p ! (current p + 1) else Token0)"

definition peekPrev :: "Parser \<Rightarrow> Token" where
  "peekPrev p =
     (if 1 \<le> current p \<and> current p - 1 < length (tokens p)
      then tokens p ! (current p - 1) else Token0)"

definition advance :: "Parser \<Rightarrow> Parser" where
  "advance p = p\<lparr>current := current p + 1\<rparr>"

definition prevance :: "Parser \<Rightarrow> Parser" where
  "prevance p = p\<lparr>current := current p - 1\<rparr>"

definition peek_is :: "Parser \<Rightarrow> TokenType \<Rightarrow> bool" where
  "peek_is p t = (type (peek p) = t)"

definition match :: "Parser \<Rightarrow> TokenType \<Rightarrow> bool" where
  "match p t = (\<not> atEnd p \<and> type (peek p) = t)"

definition match_kw :: "Parser \<Rightarrow> TokenType \<Rightarrow> bool" where
  "match_kw p t = (\<not> atEnd p \<and> type (peek p) = t)"

definition consume :: "Parser \<Rightarrow> TokenType \<Rightarrow> string \<Rightarrow> Token presult" where
  "consume p t msg =
     (if \<not> atEnd p \<and> type (peek p) = t then POk (peek p) (advance p) else PErr msg)"

definition token_eq :: "Token \<Rightarrow> Token \<Rightarrow> bool" where
  "token_eq a b = (type a = type b \<and> lexeme a = lexeme b)"

text \<open>
  The expression grammar (parser.cc, lines 44 to 176). A null \<^verbatim>\<open>std::unique_ptr<Expr>\<close>
  is \<open>None\<close>. The productions call each other in a cycle only through \<^verbatim>\<open>primary\<close>,
  which calls \<^verbatim>\<open>expression()\<close> after a left parenthesis: every production takes that
  call as its argument \<open>ex\<close>, and \<open>expression\<close> at the end passes itself. Each \<^verbatim>\<open>while\<close>
  loop is the function \<open>_loop\<close> next to its production, which takes the expression built
  so far. The number \<open>n\<close> bounds the calls a function may still unfold: the turns of a
  loop, the operators of a \<^verbatim>\<open>unary\<close> or the assignments of an \<^verbatim>\<open>assignment\<close> in a row,
  and the depth of the parentheses.
\<close>

definition primary :: "(Parser \<Rightarrow> Expr option presult) \<Rightarrow> Parser \<Rightarrow> Expr option presult" where
  "primary ex p =
     (if match p FALSE then
        POk (Some (Literal (Token FALSE ''false'' (AnyCStr []) (line_no p)))) (advance p)
      else if match p TRUE then
        POk (Some (Literal (Token TRUE ''true'' (AnyCStr []) (line_no p)))) (advance p)
      else if match p NIL then
        POk (Some (Literal (Token NIL ''nil'' (AnyCStr []) (line_no p)))) (advance p)
      else if match p NUMERICLITERAL then
        POk (Some (Literal (peekPrev (advance p)))) (advance p)
      else if match p STRINGLITERAL then
        POk (Some (Literal (peekPrev (advance p)))) (advance p)
      else if match p IDENTIFIER then
        POk (Some (Literal (peekPrev (advance p)))) (advance p)
      else if match p LEFT_PAREN then
        pbind (ex (advance p)) (\<lambda>expr p1.
          pbind (consume p1 RIGHT_PAREN ''Expected ')' after expression'') (\<lambda>_ p2.
            POk expr p2))
      else POk None p)"

fun unary :: "nat \<Rightarrow> (Parser \<Rightarrow> Expr option presult) \<Rightarrow> Parser \<Rightarrow> Expr option presult" where
  "unary 0 ex p = PFuel"
| "unary (Suc n) ex p =
     (if match p BANG \<or> match p MINUS then
        (let op = peekPrev (advance p) in
         pbind (unary n ex (advance p)) (\<lambda>right p1.
           case right of
             None \<Rightarrow> PErr ''Expected expression after unary operator''
           | Some r \<Rightarrow> POk (Some (Unary op r)) p1))
      else primary ex p)"

fun factor_loop ::
  "nat \<Rightarrow> (Parser \<Rightarrow> Expr option presult) \<Rightarrow> Expr option \<Rightarrow> Parser \<Rightarrow> Expr option presult" where
  "factor_loop 0 ex expr p = PFuel"
| "factor_loop (Suc n) ex expr p =
     (if match p STAR \<or> match p SLASH then
        (let op = peekPrev (advance p) in
         pbind (unary (Suc n) ex (advance p)) (\<lambda>right p1.
           case expr of
             None \<Rightarrow> PErr ''Expected number before factor operator''
           | Some l \<Rightarrow>
               (case right of
                  None \<Rightarrow> PErr ''Expected number after factor operator''
                | Some r \<Rightarrow> factor_loop n ex (Some (Binary l op r)) p1)))
      else POk expr p)"

definition factor :: "nat \<Rightarrow> (Parser \<Rightarrow> Expr option presult) \<Rightarrow> Parser \<Rightarrow> Expr option presult" where
  "factor n ex p = pbind (unary n ex p) (factor_loop n ex)"

fun term_loop ::
  "nat \<Rightarrow> (Parser \<Rightarrow> Expr option presult) \<Rightarrow> Expr option \<Rightarrow> Parser \<Rightarrow> Expr option presult" where
  "term_loop 0 ex expr p = PFuel"
| "term_loop (Suc n) ex expr p =
     (if match p MINUS \<or> match p PLUS then
        (let op = peekPrev (advance p) in
         pbind (factor (Suc n) ex (advance p)) (\<lambda>right p1.
           case expr of
             None \<Rightarrow> PErr ''Expected number before term operator''
           | Some l \<Rightarrow>
               (case right of
                  None \<Rightarrow> PErr ''Expected number after term operator''
                | Some r \<Rightarrow> term_loop n ex (Some (Binary l op r)) p1)))
      else POk expr p)"

definition "term" :: "nat \<Rightarrow> (Parser \<Rightarrow> Expr option presult) \<Rightarrow> Parser \<Rightarrow> Expr option presult" where
  "term n ex p = pbind (factor n ex p) (term_loop n ex)"

fun comparison_loop ::
  "nat \<Rightarrow> (Parser \<Rightarrow> Expr option presult) \<Rightarrow> Expr option \<Rightarrow> Parser \<Rightarrow> Expr option presult" where
  "comparison_loop 0 ex expr p = PFuel"
| "comparison_loop (Suc n) ex expr p =
     (if match p GREATER \<or> match p GREATER_EQUAL \<or> match p LESS \<or> match p LESS_EQUAL then
        (let op = peekPrev (advance p) in
         pbind (term (Suc n) ex (advance p)) (\<lambda>right p1.
           case expr of
             None \<Rightarrow> PErr ''Expected expression before comparison operator''
           | Some l \<Rightarrow>
               (case right of
                  None \<Rightarrow> PErr ''Expected expression after comparison operator''
                | Some r \<Rightarrow> comparison_loop n ex (Some (Binary l op r)) p1)))
      else POk expr p)"

definition comparison ::
  "nat \<Rightarrow> (Parser \<Rightarrow> Expr option presult) \<Rightarrow> Parser \<Rightarrow> Expr option presult" where
  "comparison n ex p = pbind (term n ex p) (comparison_loop n ex)"

fun equality_loop ::
  "nat \<Rightarrow> (Parser \<Rightarrow> Expr option presult) \<Rightarrow> Expr option \<Rightarrow> Parser \<Rightarrow> Expr option presult" where
  "equality_loop 0 ex expr p = PFuel"
| "equality_loop (Suc n) ex expr p =
     (if match p BANG_EQUAL \<or> match p EQUAL_EQUAL then
        (let op = peekPrev (advance p) in
         pbind (comparison (Suc n) ex (advance p)) (\<lambda>right p1.
           case expr of
             None \<Rightarrow> PErr ''Expected expression before equality operator''
           | Some l \<Rightarrow>
               (case right of
                  None \<Rightarrow> PErr ''Expected expression after equality operator''
                | Some r \<Rightarrow> equality_loop n ex (Some (Binary l op r)) p1)))
      else POk expr p)"

definition equality ::
  "nat \<Rightarrow> (Parser \<Rightarrow> Expr option presult) \<Rightarrow> Parser \<Rightarrow> Expr option presult" where
  "equality n ex p = pbind (comparison n ex p) (equality_loop n ex)"

fun assignment ::
  "nat \<Rightarrow> Environment \<Rightarrow> (Parser \<Rightarrow> Expr option presult) \<Rightarrow> Parser \<Rightarrow> Expr option presult" where
  "assignment 0 E ex p = PFuel"
| "assignment (Suc n) E ex p =
     (if token_eq (peekNext p) (Token EQUAL ''='' (AnyCStr []) (line_no p)) then
        (if match p IDENTIFIER then
           (if peek_is (advance p) SEMICOLON then equality (Suc n) ex (prevance (advance p))
            else
              (let idt = peekPrev (advance p) in
               pbind (consume (advance p) EQUAL ''Expected '=' after variable name'') (\<lambda>_ p1.
                 pbind (assignment n E ex p1) (\<lambda>expr p2.
                   case expr of
                     None \<Rightarrow> PErr ''Expected expression after variable name''
                   | Some e \<Rightarrow>
                       if token_eq (getEnv E (castString idt)) Token0
                       then PErr (''Undefined variable '' @ apostrophe @ castString idt @ apostrophe)
                       else POk (Some (Assign idt e)) p2))))
         else equality (Suc n) ex p)
      else equality (Suc n) ex p)"

fun expression :: "nat \<Rightarrow> Environment \<Rightarrow> Parser \<Rightarrow> Expr option presult" where
  "expression 0 E p = PFuel"
| "expression (Suc n) E p = assignment (Suc n) E (expression n E) p"

text \<open>Statements and declarations (parser.cc, lines 180 to 223).\<close>

definition statement_expression :: "nat \<Rightarrow> Environment \<Rightarrow> Parser \<Rightarrow> Stmt presult" where
  "statement_expression n E p =
     pbind (expression n E p) (\<lambda>expr p1.
       pbind (consume p1 SEMICOLON ''Expected ';' after expression'') (\<lambda>_ p2.
         POk (StmtExpr expr) p2))"

definition statement_print :: "nat \<Rightarrow> Environment \<Rightarrow> Parser \<Rightarrow> Stmt presult" where
  "statement_print n E p =
     pbind (consume p LEFT_PAREN ''Expected '(' after print'') (\<lambda>_ p1.
       pbind (expression n E p1) (\<lambda>expr p2.
         pbind (consume p2 RIGHT_PAREN ''Expected ')' after print'') (\<lambda>_ p3.
           pbind (consume p3 SEMICOLON ''Expected ';' after print statement'') (\<lambda>_ p4.
             POk (StmtPrint expr) p4))))"

definition declaration_statement :: "nat \<Rightarrow> Environment \<Rightarrow> Parser \<Rightarrow> Decl presult" where
  "declaration_statement n E p =
     pbind (if match_kw p PRINT then statement_print n E (advance p)
            else statement_expression n E p)
       (\<lambda>stmt p1. POk (DeclStmt stmt) p1)"

definition declaration_variable :: "nat \<Rightarrow> Environment \<Rightarrow> Parser \<Rightarrow> Decl presult" where
  "declaration_variable n E p =
     pbind (consume p IDENTIFIER ''Expected variable name'') (\<lambda>idt p1.
       if \<not> token_eq (getEnv E (castString idt)) Token0
       then PErr (''Variable '' @ apostrophe @ castString idt @ apostrophe @ '' already declared'')
       else
         pbind (assignment n E (expression n E) (prevance p1)) (\<lambda>expr p2.
           pbind (consume p2 SEMICOLON ''Expected ';' after variable assignment'') (\<lambda>_ p3.
             POk (DeclVar idt expr) p3)))"

text \<open>
  \<^verbatim>\<open>Parser::block\<close> (parser.cc, lines 227 to 249) is its loop, started on no
  declarations; the result is the declaration list of the block. Line 247 hands the
  local vector to \<^verbatim>\<open>std::make_unique\<close>; it is read as moving the declarations into the
  block.
\<close>

fun block_loop :: "nat \<Rightarrow> Environment \<Rightarrow> Decl list \<Rightarrow> Parser \<Rightarrow> Decl list presult" where
  "block_loop 0 E decls p = PFuel"
| "block_loop (Suc n) E decls p =
     (if \<not> atEnd p \<and> \<not> peek_is p RIGHT_BRACE then
        (if match p LEFT_BRACE then
           pbind (block_loop n E [] (advance p)) (\<lambda>inner_decls p1.
             block_loop n E (decls @ inner_decls) p1)
         else if match_kw p VAR then
           pbind (declaration_variable (Suc n) E (advance p)) (\<lambda>d p1.
             block_loop n E (decls @ [d]) p1)
         else
           pbind (declaration_statement (Suc n) E p) (\<lambda>d p1.
             block_loop n E (decls @ [d]) p1))
      else if \<not> match p RIGHT_BRACE then PErr ''Expected '}' after block''
      else POk decls (advance p))"

definition block :: "nat \<Rightarrow> Environment \<Rightarrow> Parser \<Rightarrow> Decl list presult" where
  "block n E p = block_loop n E [] p"

text \<open>\<^verbatim>\<open>Parser::program\<close> (parser.cc, lines 251 to 266) is its loop, started on no declarations.\<close>

fun program_loop :: "nat \<Rightarrow> Environment \<Rightarrow> Decl list \<Rightarrow> Parser \<Rightarrow> Program presult" where
  "program_loop 0 E decls p = PFuel"
| "program_loop (Suc n) E decls p =
     (if \<not> atEnd p then
        (if match_kw p VAR then
           pbind (declaration_variable (Suc n) E (advance p)) (\<lambda>d p1.
             program_loop n E (decls @ [d]) p1)
         else if match p LEFT_BRACE then
           pbind (block (Suc n) E (advance p)) (\<lambda>b p1.
             program_loop n E (decls @ [Block b]) p1)
         else
           pbind (declaration_statement (Suc n) E p) (\<lambda>d p1.
             program_loop n E (decls @ [d]) p1))
      else POk (Program decls) p)"

definition program :: "nat \<Rightarrow> Environment \<Rightarrow> Parser \<Rightarrow> Program presult" where
  "program n E p = program_loop n E [] p"

text \<open>
  \<^verbatim>\<open>Parser::parse\<close> (parser.cc, lines 33 to 40): the program, or \<^verbatim>\<open>nullptr\<close> (here \<open>None\<close>)
  when a \<^verbatim>\<open>ParserException\<close> was raised.
\<close>

datatype 'a answer = Returns 'a | Unfinished

definition parse :: "nat \<Rightarrow> Environment \<Rightarrow> Parser \<Rightarrow> Program option answer" where
  "parse n E p =
     (case program n E p of
        POk prgm p' \<Rightarrow> Returns (Some prgm)
      | PErr msg \<Rightarrow> Returns None
      | PFuel \<Rightarrow> Unfinished)"

text \<open>The parser at the start of a token vector.\<close>

definition parser_on :: "Token list \<Rightarrow> Parser" where
  "parser_on ts = \<lparr>tokens = ts, current = 0, line_no = 1\<rparr>"

section \<open>Programs and token streams used below\<close>

text \<open>
  Tokens as a scanner hands them to the parser, all on line 1: punctuation, operators
  and keywords carry no payload of interest, an identifier carries its name, a number
  its value.
\<close>

definition tk :: "TokenType \<Rightarrow> string \<Rightarrow> Token" where
  "tk t lx = Token t lx (AnyCStr []) 1"

definition ident :: "string \<Rightarrow> Token" where
  "ident s = Token IDENTIFIER s (AnyString s) 1"

definition number :: "int \<Rightarrow> Token" where
  "number i = Token NUMERICLITERAL (to_string i) (AnyInt i) 1"

text \<open>The global environment before anything is declared.\<close>

definition env0 :: Environment where
  "env0 = Environment Map.empty None"

text \<open>\<^verbatim>\<open>var x = 10; x = x + 5; print(x);\<close>\<close>

definition assign_program_tokens :: "Token list" where
  "assign_program_tokens =
     [tk VAR ''var'', ident ''x'', tk EQUAL ''='', number 10, tk SEMICOLON '';'',
      ident ''x'', tk EQUAL ''='', ident ''x'', tk PLUS ''+'', number 5, tk SEMICOLON '';'',
      tk PRINT ''print'', tk LEFT_PAREN ''('', ident ''x'', tk RIGHT_PAREN '')'',
      tk SEMICOLON '';'']"

text \<open>
  The tree the grammar of the parser describes for that program: the initializer of the
  declaration is the assignment \<open>x = 10\<close> that \<^verbatim>\<open>declaration_variable\<close> parses after
  rewinding to the identifier.
\<close>

definition assign_program_tree :: Program where
  "assign_program_tree =
     Program
       [DeclVar (ident ''x'') (Some (Assign (ident ''x'') (Literal (number 10)))),
        DeclStmt (StmtExpr (Some (Assign (ident ''x'')
          (Binary (Literal (ident ''x'')) (tk PLUS ''+'') (Literal (number 5)))))),
        DeclStmt (StmtPrint (Some (Literal (ident ''x''))))]"

text \<open>\<^verbatim>\<open>fun f() { return 42; } print(f());\<close> and the tree of its two declarations.\<close>

definition fun_program_tokens :: "Token list" where
  "fun_program_tokens =
     [tk FUN ''fun'', ident ''f'', tk LEFT_PAREN ''('', tk RIGHT_PAREN '')'',
      tk LEFT_BRACE ''{'', tk RETURN ''return'', number 42, tk SEMICOLON '';'',
      tk RIGHT_BRACE ''}'',
      tk PRINT ''print'', tk LEFT_PAREN ''('', ident ''f'', tk LEFT_PAREN ''('',
      tk RIGHT_PAREN '')'', tk RIGHT_PAREN '')'', tk SEMICOLON '';'']"

definition return_block :: "Decl list" where
  "return_block = [DeclStmt (StmtReturn (Literal (number 42)))]"

definition fun_program_tree :: Program where
  "fun_program_tree =
     Program
       [DeclFunc (ident ''f'') [] (Some return_block),
        DeclStmt (StmtPrint (Some (Call (Literal (ident ''f'')) [])))]"



text \<open>
  \<^verbatim>\<open>{ print(1); { print(2); { print(3); } print(4); } print(5); }\<close>, the tokens of one
  print statement and its declaration.
\<close>

definition print_tokens :: "int \<Rightarrow> Token list" where
  "print_tokens i =
     [tk PRINT ''print'', tk LEFT_PAREN ''('', number i, tk RIGHT_PAREN '')'', tk SEMICOLON '';'']"

definition nested_block_tokens :: "Token list" where
  "nested_block_tokens =
     tk LEFT_BRACE ''{'' # print_tokens 1
       @ tk LEFT_BRACE ''{'' # print_tokens 2
           @ tk LEFT_BRACE ''{'' # print_tokens 3 @ tk RIGHT_BRACE ''}''
           # print_tokens 4 @ tk RIGHT_BRACE ''}''
       # print_tokens 5 @ [tk RIGHT_BRACE ''}'']"

definition print_decl :: "int \<Rightarrow> Decl" where
  "print_decl i = DeclStmt (StmtPrint (Some (Literal (number i))))"

text \<open>
  \<^verbatim>\<open>{ { x = 7; } print(x); }\<close>, an environment in which \<open>x\<close> is declared (the parser
  accepts an assignment to a declared name only), and the two declarations.
\<close>

definition scoped_assign_tokens :: "Token list" where
  "scoped_assign_tokens =
     [tk LEFT_BRACE ''{'',
        tk LEFT_BRACE ''{'', ident ''x'', tk EQUAL ''='', number 7, tk SEMICOLON '';'',
        tk RIGHT_BRACE ''}'',
        tk PRINT ''print'', tk LEFT_PAREN ''('', ident ''x'', tk RIGHT_PAREN '')'', tk SEMICOLON '';'',
      tk RIGHT_BRACE ''}'']"

definition declared_x_env :: Environment where
  "declared_x_env = Environment [''x'' \<mapsto> number 0] None"

definition assign_x_decl :: Decl where
  "assign_x_decl = DeclStmt (StmtExpr (Some (Assign (ident ''x'') (Literal (number 7)))))"

definition print_x_decl :: Decl where
  "print_x_decl = DeclStmt (StmtPrint (Some (Literal (ident ''x''))))"

text \<open>
  Expressions without a call, and declarations that are no block and hold no call: the
  nodes whose visitors neither push nor pop a scope.
\<close>

fun call_free :: "Expr \<Rightarrow> bool" where
  "call_free (Literal val) = True"
| "call_free (Unary op e) = call_free e"
| "call_free (Binary l op r) = (call_free l \<and> call_free r)"
| "call_free (Grouping e) = call_free e"
| "call_free (Assign name v) = call_free v"
| "call_free (Ternary c l r) = (call_free c \<and> call_free l \<and> call_free r)"
| "call_free (Call callee args) = False"

definition call_free_opt :: "Expr option \<Rightarrow> bool" where
  "call_free_opt eo = (case eo of None \<Rightarrow> True | Some e \<Rightarrow> call_free e)"

fun flat_decl :: "Decl \<Rightarrow> bool" where
  "flat_decl (DeclStmt (StmtExpr eo)) = call_free_opt eo"
| "flat_decl (DeclStmt (StmtPrint eo)) = call_free_opt eo"
| "flat_decl (DeclStmt (StmtReturn e)) = call_free e"
| "flat_decl (DeclVar identifier eo) = call_free_opt eo"
| "flat_decl (DeclFunc name params blk) = True"
| "flat_decl (Block decls) = False"

text \<open>A parsing function returns, if an expression at all, one without a call.\<close>

definition returns_call_free :: "Expr option presult \<Rightarrow> bool" where
  "returns_call_free r = (case r of POk eo p \<Rightarrow> call_free_opt eo | _ \<Rightarrow> True)"

text \<open>The state in which a visitor ends, by returning or by throwing.\<close>

definition final_world :: "'a outcome \<Rightarrow> World option" where
  "final_world r = (case r of Done a w \<Rightarrow> Some w | Raised x w \<Rightarrow> Some w | Timeout \<Rightarrow> None)"

text \<open>A visitor that ends does so at the scope depth of the state \<open>w\<close>.\<close>

definition keeps_depth :: "World \<Rightarrow> 'a outcome \<Rightarrow> bool" where
  "keeps_depth w r =
     (case final_world r of
        None \<Rightarrow> True
      | Some w' \<Rightarrow> scopeDepth (env w') = scopeDepth (env w))"

text \<open>String values: \<^verbatim>\<open>"hi"\<close> with its quotes, a lone double quote, the empty string.\<close>

definition string_value :: "string \<Rightarrow> Token" where
  "string_value s = Token STRINGLITERAL s (AnyInt 0) 1"

definition string_literal :: "string \<Rightarrow> Expr" where
  "string_literal s = Literal (Token STRINGLITERAL s (AnyString s) 1)"

text \<open>\<^verbatim>\<open>{ print(y); }\<close>, where \<open>y\<close> is not declared.\<close>

definition undefined_print_tokens :: "Token list" where
  "undefined_print_tokens =
     [tk LEFT_BRACE ''{'', tk PRINT ''print'', tk LEFT_PAREN ''('', ident ''y'',
      tk RIGHT_PAREN '')'', tk SEMICOLON '';'', tk RIGHT_BRACE ''}'']"

text \<open>
  The state after \<^verbatim>\<open>x = nil\<close> in a fresh process: the global scope binds \<open>x\<close> to the
  value of the literal \<open>nil\<close>.
\<close>

definition nil_bound_world :: World where
  "nil_bound_world =
     \<lparr>env = Environment [''x'' \<mapsto> Token NIL ''nil'' AnyNull 1] None, out = []\<rparr>"

text \<open>
  A chain of two scopes that both bind \<open>x\<close>: the root to 1, its child to 2.
\<close>

definition shadowed_env :: Environment where
  "shadowed_env =
     Environment [''x'' \<mapsto> Token NUMERICLITERAL ''1'' (AnyInt 1) 1]
       (Some (Environment [''x'' \<mapsto> Token NUMERICLITERAL ''2'' (AnyInt 2) 2] None))"

section \<open>Properties of the environment\<close>

lemma scopeDepth_addChild: "scopeDepth (addChild e) = Suc (scopeDepth e)"
  unfolding scopeDepth_def
  by (induction e rule: addChild.induct) (simp split: option.splits)

lemma scopeDepth_setEnv: "scopeDepth (setEnv e name v) = scopeDepth e"
  unfolding scopeDepth_def
  by (induction e name v rule: setEnv.induct) (simp split: option.splits)

lemma scopeDepth_pos: "0 < scopeDepth e"
  by (cases e) (simp add: scopeDepth_def)

lemma scopeDepth_removeChild:
  "scopeDepth e = Suc (Suc k) \<Longrightarrow> scopeDepth (removeChild e) = Suc k"
proof (induction e arbitrary: k rule: removeChild.induct)
  case (1 vals ch)
  show ?case
  proof (cases ch)
    case None
    with "1.prems" show ?thesis by (simp add: scopeDepth_def)
  next
    case c: (Some c)
    obtain cv cc where shape: "c = Environment cv cc" by (cases c)
    show ?thesis
    proof (cases cc)
      case None
      with c shape "1.prems" show ?thesis by (simp add: scopeDepth_def)
    next
      case (Some d)
      with shape have child: "child c = Some d" by simp
      from shape Some scopeDepth_pos [of d]
      have depth: "scopeDepth c = Suc (Suc (scopeDepth d - 1))"
        by (simp add: scopeDepth_def)
      from "1.IH" [OF c child depth] have "scopeDepth (removeChild c) = scopeDepth c - 1"
        using depth by simp
      with c child "1.prems" depth show ?thesis
        by (simp add: scopeDepth_def)
    qed
  qed
qed

lemma getEnv_setEnv_same: "getEnv (setEnv e name v) name = v"
  by (induction e name v rule: setEnv.induct) (simp split: option.splits)

lemma find_first_binding:
  "\<forall>s\<in>set pre. s name = None \<Longrightarrow> m name = Some t
   \<Longrightarrow> List.find (\<lambda>s. s name \<noteq> None) (pre @ m # post) = Some m"
  by (induction pre) auto

lemma getEnv_find: "getEnv e name = outermost_binding (scopes e) name"
  unfolding outermost_binding_def
  by (induction e name rule: getEnv.induct) (auto split: option.splits)

text \<open>
  Claim C8. For every name and every scope chain, \<open>getEnv\<close> returns the binding found at
  the outermost (root-most) scope that contains the name, recursing from each scope into
  its child: when the scopes before \<open>m\<close> (counted from the root) do not contain the name
  and \<open>m\<close> binds it to \<open>t\<close>, the result is \<open>t\<close>, whatever the inner scopes \<open>post\<close> hold.
  When no scope of the chain binds the name the result is the sentinel token of type
  \<open>NIL\<close>. In short \<open>getEnv\<close> is the outermost binding of the chain.
\<close>

theorem getEnv_outermost:
  "(scopes e = pre @ m # post \<and> (\<forall>s\<in>set pre. s name = None) \<and> m name = Some t
      \<longrightarrow> getEnv e name = t)
   \<and> ((\<forall>s\<in>set (scopes e). s name = None)
      \<longrightarrow> getEnv e name = Token0 \<and> type (getEnv e name) = NIL)
   \<and> getEnv e name = outermost_binding (scopes e) name"
proof -
  have first: "getEnv e name = t"
    if h: "scopes e = pre @ m # post \<and> (\<forall>s\<in>set pre. s name = None) \<and> m name = Some t"
  proof -
    from h have "List.find (\<lambda>s. s name \<noteq> None) (pre @ m # post) = Some m"
      using find_first_binding [of pre name m t post] by blast
    with h show ?thesis
      by (simp add: getEnv_find outermost_binding_def)
  qed
  have absent: "getEnv e name = Token0 \<and> type (getEnv e name) = NIL"
    if h: "\<forall>s\<in>set (scopes e). s name = None"
  proof -
    from h have "List.find (\<lambda>s. s name \<noteq> None) (scopes e) = None"
      by (simp add: find_None_iff)
    then show ?thesis
      by (simp add: getEnv_find outermost_binding_def Token0_def)
  qed
  from first absent getEnv_find [of e name] show ?thesis
    by blast
qed

text \<open>
  In the chain whose root binds \<open>x\<close> to 1 and whose child binds \<open>x\<close> to 2 the lookup of
  \<open>x\<close> gives 1, and the lookup of \<open>y\<close>, which no scope binds, gives the sentinel.
\<close>

theorem getEnv_outermost_witness:
  "scopes shadowed_env = [] @ [''x'' \<mapsto> Token NUMERICLITERAL ''1'' (AnyInt 1) 1]
       # [[''x'' \<mapsto> Token NUMERICLITERAL ''2'' (AnyInt 2) 2]]
   \<and> getEnv shadowed_env ''x'' = Token NUMERICLITERAL ''1'' (AnyInt 1) 1
   \<and> [''x'' \<mapsto> Token NUMERICLITERAL ''1'' (AnyInt 1) 1] ''y'' = None
   \<and> [''x'' \<mapsto> Token NUMERICLITERAL ''2'' (AnyInt 2) 2] ''y'' = None
   \<and> getEnv shadowed_env ''y'' = Token0"
  using getEnv_outermost [of shadowed_env "[]"
      "[''x'' \<mapsto> Token NUMERICLITERAL ''1'' (AnyInt 1) 1]"
      "[[''x'' \<mapsto> Token NUMERICLITERAL ''2'' (AnyInt 2) 2]]" "''x''"
      "Token NUMERICLITERAL ''1'' (AnyInt 1) 1"]
    getEnv_outermost [of shadowed_env "[]" Map.empty "[]" "''y''" Token0]
  by (simp add: shadowed_env_def)

section \<open>Rules for running the model\<close>

lemma andThen_simps [simp]:
  "andThen (Done a w) f = f a w"
  "andThen (Raised x w) f = Raised x w"
  "andThen Timeout f = Timeout"
  by (simp_all add: andThen_def)

lemma pbind_simps [simp]:
  "pbind (POk a p) f = f a p"
  "pbind (PErr msg) f = PErr msg"
  "pbind PFuel f = PFuel"
  by (simp_all add: pbind_def)

lemma pbind_POk: "pbind m f = POk r p' \<Longrightarrow> \<exists>a p1. m = POk a p1 \<and> f a p1 = POk r p'"
  by (cases m) simp_all

lemmas parser_utils =
  atEnd_def peek_def peekNext_def peekPrev_def advance_def prevance_def peek_is_def
  match_def match_kw_def consume_def token_eq_def parser_on_def

lemmas expr_defs = primary_def factor_def term_def comparison_def equality_def

lemma to_string_values:
  "to_string 0 = ''0''" "to_string 1 = ''1''" "to_string 2 = ''2''" "to_string 3 = ''3''"
  "to_string 4 = ''4''"
  "to_string 5 = ''5''" "to_string 7 = ''7''" "to_string 10 = ''10''" "to_string 15 = ''15''"
  "to_string 42 = ''42''"
  by (simp_all add: to_string_def digits.simps)

lemmas token_defs = tk_def ident_def number_def to_string_values

lemmas value_defs =
  visit_literal_def print_value_def runTimeError_def castString_def castAnyString_def
  truthy_def isNumber_def isString_def true_tok_def false_tok_def dquote_def apostrophe_def
  Let_def

text \<open>The steps a visitor or a parsing function may unfold, counted out.\<close>

lemma fuel:
  "n + 2 = Suc (Suc n)"
  "n + 3 = Suc (Suc (Suc n))"
  "n + 4 = Suc (Suc (Suc (Suc n)))"
  "n + 5 = Suc (Suc (Suc (Suc (Suc n))))"
  "n + 6 = Suc (Suc (Suc (Suc (Suc (Suc n)))))"
  "n + 7 = Suc (Suc (Suc (Suc (Suc (Suc (Suc n))))))"
  "n + 8 = Suc (Suc (Suc (Suc (Suc (Suc (Suc (Suc n)))))))"
  "n + 11 = Suc (Suc (Suc (Suc (Suc (Suc (Suc (Suc (Suc (Suc (Suc n))))))))))"
  "(1::nat) = Suc 0"
  "(2::nat) = Suc (Suc 0)"
  "(3::nat) = Suc (Suc (Suc 0))"
  "(4::nat) = Suc (Suc (Suc (Suc 0)))"
  by simp_all

section \<open>Blocks and scopes\<close>

text \<open>
  Claim C1. The claim: on every exit path of the evaluation of a block (normal
  completion, a runtime error, a return signal) the scope depth of the environment
  after the block equals the depth before it. The code pops the scope after the loop
  over the declarations only, so an exception that leaves the loop leaves the pushed
  scope behind. The block \<^verbatim>\<open>{ return 42; }\<close> leaves with the return signal and the block
  \<^verbatim>\<open>{ print(y); }\<close>, which the parser accepts, leaves with the runtime error for the
  undefined \<open>y\<close>; both start at depth 1 and end at depth 2, whatever the number of steps
  from 5 on.
\<close>

theorem block_scope_not_popped_on_throw:
  "accept_decl (n + 5) world0 (Block return_block)
     = Raised (StmtReturnException (number 42)) (world0\<lparr>env := addChild (env world0)\<rparr>)
   \<and> parse (n + 2) env0 (parser_on undefined_print_tokens)
     = Returns (Some (Program [Block [DeclStmt (StmtPrint (Some (Literal (ident ''y''))))]]))
   \<and> accept_decl (n + 5) world0 (Block [DeclStmt (StmtPrint (Some (Literal (ident ''y''))))])
     = Raised (RuntimeError (''Undefined variable '' @ apostrophe @ ''y'' @ apostrophe))
         (world0\<lparr>env := addChild (env world0)\<rparr>)
   \<and> scopeDepth (env world0) = 1
   \<and> scopeDepth (env (world0\<lparr>env := addChild (env world0)\<rparr>)) = 2"
proof (intro conjI)
  show "accept_decl (n + 5) world0 (Block return_block)
     = Raised (StmtReturnException (number 42)) (world0\<lparr>env := addChild (env world0)\<rparr>)"
    by (simp add: fuel return_block_def token_defs value_defs world0_def)
  show "parse (n + 2) env0 (parser_on undefined_print_tokens)
     = Returns (Some (Program [Block [DeclStmt (StmtPrint (Some (Literal (ident ''y''))))]]))"
    by (simp add: fuel parse_def program_def block_def declaration_statement_def
        statement_print_def parser_utils expr_defs token_defs undefined_print_tokens_def)
  show "accept_decl (n + 5) world0 (Block [DeclStmt (StmtPrint (Some (Literal (ident ''y''))))])
     = Raised (RuntimeError (''Undefined variable '' @ apostrophe @ ''y'' @ apostrophe))
         (world0\<lparr>env := addChild (env world0)\<rparr>)"
    by (simp add: fuel token_defs value_defs world0_def Token0_def)
  show "scopeDepth (env world0) = 1"
    by (simp add: world0_def scopeDepth_def)
  show "scopeDepth (env (world0\<lparr>env := addChild (env world0)\<rparr>)) = 2"
    by (simp add: world0_def scopeDepth_def)
qed

text \<open>
  On the normal exit the scope is popped: a block whose declarations complete ends with
  \<open>removeChild\<close> applied to the state they leave.
\<close>

lemma block_normal_exit:
  "accept_decls n (w\<lparr>env := addChild (env w)\<rparr>) ds = Done toks w1
   \<Longrightarrow> accept_decl (Suc n) w (Block ds) = Done toks (w1\<lparr>env := removeChild (env w1)\<rparr>)"
  by simp

section \<open>Variable declarations and assignment\<close>

text \<open>
  Claim C2. The claim: the program \<^verbatim>\<open>var x = 10; x = x + 5; print(x);\<close> parses and, when
  evaluated, writes 15. In the code \<^verbatim>\<open>declaration_variable\<close> first demands that \<open>x\<close> is
  not bound in the environment, rewinds to the identifier and calls \<^verbatim>\<open>assignment\<close>,
  which parses \<open>x = 10\<close> and demands that \<open>x\<close> is bound in the same environment, which the
  parser never writes. One of the two checks raises the parser exception, so \<^verbatim>\<open>parse\<close>
  returns the null pointer for this token stream in every environment, whatever the
  number of steps from 2 on.
\<close>

theorem var_initializer_never_parses:
  "parse (n + 2) E (parser_on assign_program_tokens) = Returns None"
  by (simp add: fuel parse_def program_def declaration_variable_def parser_utils expr_defs
      token_defs assign_program_tokens_def Token0_def castString_def)

text \<open>
  The evaluator is not at fault: on the tree the grammar describes for the program it
  writes 15 and returns one entry for each of the three declarations.
\<close>

lemma assign_program_tree_evaluates:
  "visit_program (n + 8) world0 assign_program_tree
     = Done [number 10, number 15, number 15]
         \<lparr>env = Environment [''x'' \<mapsto> number 15] None, out = [''15'']\<rparr>"
  by (simp add: fuel visit_program_def assign_program_tree_def token_defs value_defs world0_def
      Token0_def binary_both_def arithmetic_result_def any_arithmetic_def
      castNumberString_any_def)

text \<open>
  Claim C3. The claim: for every \<open>DeclVar\<close> the evaluator evaluates, an initializer that
  is present is evaluated and the identifier is bound in the environment to its value,
  and without an initializer the identifier is bound to \<open>NIL\<close>. The code calls \<open>setEnv\<close>
  in the branch without initializer only: with an initializer it evaluates the
  expression, returns its value and binds nothing. \<^verbatim>\<open>DeclVar(x, 10)\<close> in a fresh process
  returns 10 and leaves \<open>x\<close> unbound, for every number of steps from 2 on, while
  \<^verbatim>\<open>DeclVar(x)\<close> binds \<open>x\<close> to the \<open>NIL\<close> token.
\<close>

theorem decl_var_initializer_unbound:
  "accept_decl (n + 2) world0 (DeclVar (ident ''x'') (Some (Literal (number 10))))
     = Done [number 10] world0
   \<and> ''x'' \<notin> dom (values_map (env world0))
   \<and> getEnv (env world0) ''x'' = Token0
   \<and> accept_decl (n + 2) world0 (DeclVar (ident ''x'') None)
     = Done [Token NIL ''null'' AnyNull 1]
         (world0\<lparr>env := Environment [''x'' \<mapsto> Token NIL ''null'' AnyNull 1] None\<rparr>)"
  by (simp add: fuel token_defs value_defs world0_def Token0_def)

text \<open>
  The same for every initializer that evaluates to a value: the declaration returns
  the value and ends in the state the initializer leaves.
\<close>

lemma decl_var_initializer_only_evaluated:
  "accept_expr n w e = Done tok w1
   \<Longrightarrow> accept_decl (Suc n) w (DeclVar idt (Some e)) = Done [tok] w1"
  by simp

section \<open>The operator \<open>||\<close>\<close>

text \<open>
  Claim C4. The claim: for \<open>||\<close> a truthy left operand gives \<open>TRUE\<close> without evaluating
  the right operand, and a falsy left operand gives \<open>TRUE\<close> exactly when the right
  operand is truthy. The code evaluates the left operand a second time where it should
  evaluate the right one: \<^verbatim>\<open>nil || 1\<close>, whose right operand is truthy, gives \<open>FALSE\<close> in
  every state. It also evaluates the right operand when the left one is truthy:
  \<^verbatim>\<open>1 || (x = 2)\<close> binds \<open>x\<close>.
\<close>

theorem log_or_reevaluates_left:
  "accept_expr (n + 2) w
       (Binary (Literal (tk NIL ''nil'')) (tk LOG_OR ''||'') (Literal (number 1)))
     = Done (false_tok 1) w
   \<and> accept_expr (n + 2) w (Literal (tk NIL ''nil'')) = Done (Token NIL ''nil'' AnyNull 1) w
   \<and> \<not> truthy (Token NIL ''nil'' AnyNull 1)
   \<and> accept_expr (n + 2) w (Literal (number 1)) = Done (number 1) w
   \<and> truthy (number 1)
   \<and> accept_expr (n + 3) world0
       (Binary (Literal (number 1)) (tk LOG_OR ''||'') (Assign (ident ''x'') (Literal (number 2))))
     = Done (true_tok 1) (world0\<lparr>env := setEnv (env world0) ''x'' (number 2)\<rparr>)"
  by (simp add: fuel token_defs value_defs)

section \<open>What the parser accepts\<close>

text \<open>
  Claim C5, as stated: the parser implements the production for function declarations,
  so that \<^verbatim>\<open>fun f() { return 42; } print(f());\<close> parses and prints 42. \<^verbatim>\<open>parse\<close> returns
  the null pointer on the token stream of this program.
\<close>

theorem fun_program_does_not_parse:
  "parse 3 env0 (parser_on fun_program_tokens) = Returns None"
  by (simp add: fuel parse_def program_def declaration_statement_def statement_expression_def
      parser_utils expr_defs token_defs fun_program_tokens_def)

text \<open>
  Claim C5, amended. The parser has no production for function declarations:
  \<^verbatim>\<open>program\<close> knows the variable declaration, the block and the print and expression
  statements, and on every token stream whose first token is \<^verbatim>\<open>fun\<close> \<^verbatim>\<open>parse\<close> returns the
  null pointer, in every environment and for every number of steps from 1 on. The
  evaluator does run function declarations and calls: on the tree of the two
  declarations of the program it binds \<open>f\<close> and prints 42.
\<close>

theorem fun_token_never_parses:
  "(type t = FUN \<longrightarrow> parse (Suc n) E \<lparr>tokens = t # ts, current = 0, line_no = l\<rparr> = Returns None)
   \<and> visit_program (n + 11) world0 fun_program_tree
       = Done [ident ''f'', number 42]
           \<lparr>env = Environment [''f'' \<mapsto> Token FUN ''function'' (AnyBlock return_block) 1]
                    (Some (Environment Map.empty None)),
            out = [''42'']\<rparr>"
proof (intro conjI impI)
  assume "type t = FUN"
  then show "parse (Suc n) E \<lparr>tokens = t # ts, current = 0, line_no = l\<rparr> = Returns None"
    by (simp add: parse_def program_def declaration_statement_def statement_expression_def
        parser_utils expr_defs)
next
  show "visit_program (n + 11) world0 fun_program_tree
       = Done [ident ''f'', number 42]
           \<lparr>env = Environment [''f'' \<mapsto> Token FUN ''function'' (AnyBlock return_block) 1]
                    (Some (Environment Map.empty None)),
            out = [''42'']\<rparr>"
    by (simp add: fuel visit_program_def fun_program_tree_def return_block_def token_defs
        value_defs world0_def Token0_def)
qed

text \<open>The token \<^verbatim>\<open>fun\<close> followed by the rest of the program above.\<close>

theorem fun_token_never_parses_witness:
  "type (tk FUN ''fun'') = FUN
   \<and> parse 1 env0 \<lparr>tokens = tk FUN ''fun'' # tl fun_program_tokens, current = 0, line_no = 1\<rparr>
       = Returns None"
  using fun_token_never_parses [of "tk FUN ''fun''" 0 env0 "tl fun_program_tokens" 1]
  by (simp add: tk_def)



section \<open>Undefined variables\<close>

text \<open>
  Claim C7, as stated: a name bound to the value \<open>nil\<close> (a token of type \<open>NIL\<close> with the
  lexeme \<^verbatim>\<open>nil\<close>) is not reported as undefined. After \<^verbatim>\<open>x = nil\<close> the global scope binds
  \<open>x\<close> to that token, and reading \<open>x\<close> raises the error for an undefined variable.
\<close>

theorem nil_binding_reported_undefined:
  "accept_expr 2 world0 (Assign (ident ''x'') (Literal (tk NIL ''nil'')))
     = Done (Token NIL ''nil'' AnyNull 1) nil_bound_world
   \<and> values_map (env nil_bound_world) ''x'' = Some (Token NIL ''nil'' AnyNull 1)
   \<and> accept_expr 1 nil_bound_world (Literal (ident ''x''))
       = Raised (RuntimeError (''Undefined variable '' @ apostrophe @ ''x'' @ apostrophe))
           nil_bound_world"
  by (simp add: fuel nil_bound_world_def world0_def token_defs value_defs)

text \<open>
  Claim C7, amended. Evaluating an identifier literal raises the runtime error
  \<^verbatim>\<open>Undefined variable 'X'\<close> exactly when \<open>getEnv\<close> gives a token of type \<open>NIL\<close> for the
  name; the lexeme of that token is not inspected. This is the case when no scope binds
  the name, and also when the outermost binding of the name is a token of type \<open>NIL\<close>,
  such as the value \<open>nil\<close>.
\<close>

theorem undefined_variable_iff_nil_type:
  "type val = IDENTIFIER \<or> type val = C_IDENTIFIER \<Longrightarrow>
     (type (getEnv (env w) (castString val)) = NIL
        \<longrightarrow> accept_expr (Suc n) w (Literal val)
              = Raised (RuntimeError (''Undefined variable '' @ apostrophe @ castString val @ apostrophe)) w)
   \<and> (type (getEnv (env w) (castString val)) \<noteq> NIL
        \<longrightarrow> accept_expr (Suc n) w (Literal val)
              \<noteq> Raised (RuntimeError (''Undefined variable '' @ apostrophe @ castString val @ apostrophe)) w')
   \<and> ((\<forall>s\<in>set (scopes (env w)). s (castString val) = None)
        \<longrightarrow> type (getEnv (env w) (castString val)) = NIL)"
proof (intro conjI impI)
  assume id: "type val = IDENTIFIER \<or> type val = C_IDENTIFIER"
  {
    assume "type (getEnv (env w) (castString val)) = NIL"
    with id show "accept_expr (Suc n) w (Literal val)
        = Raised (RuntimeError (''Undefined variable '' @ apostrophe @ castString val @ apostrophe)) w"
      by (auto simp add: visit_literal_def runTimeError_def)
  next
    assume "type (getEnv (env w) (castString val)) \<noteq> NIL"
    with id show "accept_expr (Suc n) w (Literal val)
        \<noteq> Raised (RuntimeError (''Undefined variable '' @ apostrophe @ castString val @ apostrophe)) w'"
      by (auto simp add: visit_literal_def runTimeError_def Let_def split: any.splits)
  next
    assume "\<forall>s\<in>set (scopes (env w)). s (castString val) = None"
    then have "List.find (\<lambda>s. s (castString val) \<noteq> None) (scopes (env w)) = None"
      by (simp add: find_None_iff)
    then show "type (getEnv (env w) (castString val)) = NIL"
      by (simp add: getEnv_find outermost_binding_def Token0_def)
  }
qed

text \<open>
  Reading \<open>x\<close> where it is bound to \<open>nil\<close>, where it is bound to 1, and where nothing is
  bound.
\<close>

theorem undefined_variable_iff_nil_type_witness:
  "type (ident ''x'') = IDENTIFIER
   \<and> type (getEnv (env nil_bound_world) ''x'') = NIL
   \<and> accept_expr 1 nil_bound_world (Literal (ident ''x''))
       = Raised (RuntimeError (''Undefined variable '' @ apostrophe @ ''x'' @ apostrophe))
           nil_bound_world
   \<and> type (getEnv (env (world0\<lparr>env := setEnv (env world0) ''x'' (number 1)\<rparr>)) ''x'') \<noteq> NIL
   \<and> accept_expr 1 (world0\<lparr>env := setEnv (env world0) ''x'' (number 1)\<rparr>) (Literal (ident ''x''))
       \<noteq> Raised (RuntimeError (''Undefined variable '' @ apostrophe @ ''x'' @ apostrophe)) world0
   \<and> scopes (env world0) = [Map.empty]
   \<and> type (getEnv (env world0) ''x'') = NIL"
  using undefined_variable_iff_nil_type [of "ident ''x''" nil_bound_world 0 nil_bound_world]
    undefined_variable_iff_nil_type [of "ident ''x''"
      "world0\<lparr>env := setEnv (env world0) ''x'' (number 1)\<rparr>" 0 world0]
    undefined_variable_iff_nil_type [of "ident ''x''" world0 0 world0]
  by (simp add: ident_def nil_bound_world_def world0_def castString_def apostrophe_def number_def
      Token0_def)

section \<open>Nested blocks\<close>

text \<open>
  Every expression the parser returns is free of calls: each production is, provided
  the parser \<open>ex\<close> it calls for a parenthesized expression is, and \<open>expression\<close> by
  induction on the number of steps.
\<close>

lemma returns_call_free_simps [simp]:
  "returns_call_free (POk eo p) = call_free_opt eo"
  "returns_call_free (PErr msg) = True"
  "returns_call_free PFuel = True"
  by (simp_all add: returns_call_free_def)

lemma call_free_opt_simps [simp]:
  "call_free_opt None = True"
  "call_free_opt (Some e) = call_free e"
  by (simp_all add: call_free_opt_def)

lemma returns_call_free_pbind:
  "returns_call_free m \<Longrightarrow> (\<And>eo p. m = POk eo p \<Longrightarrow> call_free_opt eo \<Longrightarrow> returns_call_free (f eo p))
   \<Longrightarrow> returns_call_free (pbind m f)"
  by (cases m) simp_all

lemma returns_call_free_pbind_any:
  "(\<And>a p. m = POk a p \<Longrightarrow> returns_call_free (f a p)) \<Longrightarrow> returns_call_free (pbind m f)"
  by (cases m) simp_all

lemma returns_call_free_POk: "returns_call_free m \<Longrightarrow> m = POk eo p \<Longrightarrow> call_free_opt eo"
  by simp

lemma primary_call_free:
  assumes ex: "\<And>q. returns_call_free (ex q)"
  shows "returns_call_free (primary ex p)"
  unfolding primary_def
  using ex [of "advance p"]
  by (auto intro!: returns_call_free_pbind returns_call_free_pbind_any)

lemma unary_call_free:
  assumes ex: "\<And>q. returns_call_free (ex q)"
  shows "returns_call_free (unary n ex p)"
proof (induction n arbitrary: p)
  case 0
  show ?case by simp
next
  case (Suc n)
  show ?case
    using Suc.IH [of "advance p"] primary_call_free [of ex p, OF ex]
    by (auto intro!: returns_call_free_pbind simp: Let_def split: option.split)
qed

lemma factor_loop_call_free:
  assumes ex: "\<And>q. returns_call_free (ex q)"
  shows "call_free_opt expr \<Longrightarrow> returns_call_free (factor_loop n ex expr p)"
proof (induction n arbitrary: expr p)
  case 0
  show ?case by simp
next
  case (Suc n)
  have operand: "returns_call_free (unary (Suc n) ex (advance p))"
    by (rule unary_call_free) (rule ex)
  show ?case
    using operand Suc.prems
    by (auto intro!: returns_call_free_pbind Suc.IH simp: Let_def simp del: unary.simps
        split: option.split)
qed

lemma factor_call_free:
  assumes ex: "\<And>q. returns_call_free (ex q)"
  shows "returns_call_free (factor n ex p)"
  unfolding factor_def
  by (auto intro!: returns_call_free_pbind unary_call_free factor_loop_call_free ex)

lemma term_loop_call_free:
  assumes ex: "\<And>q. returns_call_free (ex q)"
  shows "call_free_opt expr \<Longrightarrow> returns_call_free (term_loop n ex expr p)"
proof (induction n arbitrary: expr p)
  case 0
  show ?case by simp
next
  case (Suc n)
  have operand: "returns_call_free (factor (Suc n) ex (advance p))"
    by (rule factor_call_free) (rule ex)
  show ?case
    using operand Suc.prems
    by (auto intro!: returns_call_free_pbind Suc.IH simp: Let_def split: option.split)
qed

lemma term_call_free:
  assumes ex: "\<And>q. returns_call_free (ex q)"
  shows "returns_call_free (term n ex p)"
  unfolding term_def
  by (auto intro!: returns_call_free_pbind factor_call_free term_loop_call_free ex)

lemma comparison_loop_call_free:
  assumes ex: "\<And>q. returns_call_free (ex q)"
  shows "call_free_opt expr \<Longrightarrow> returns_call_free (comparison_loop n ex expr p)"
proof (induction n arbitrary: expr p)
  case 0
  show ?case by simp
next
  case (Suc n)
  have operand: "returns_call_free (term (Suc n) ex (advance p))"
    by (rule term_call_free) (rule ex)
  show ?case
    using operand Suc.prems
    by (auto intro!: returns_call_free_pbind Suc.IH simp: Let_def split: option.split)
qed

lemma comparison_call_free:
  assumes ex: "\<And>q. returns_call_free (ex q)"
  shows "returns_call_free (comparison n ex p)"
  unfolding comparison_def
  by (auto intro!: returns_call_free_pbind term_call_free comparison_loop_call_free ex)

lemma equality_loop_call_free:
  assumes ex: "\<And>q. returns_call_free (ex q)"
  shows "call_free_opt expr \<Longrightarrow> returns_call_free (equality_loop n ex expr p)"
proof (induction n arbitrary: expr p)
  case 0
  show ?case by simp
next
  case (Suc n)
  have operand: "returns_call_free (comparison (Suc n) ex (advance p))"
    by (rule comparison_call_free) (rule ex)
  show ?case
    using operand Suc.prems
    by (auto intro!: returns_call_free_pbind Suc.IH simp: Let_def split: option.split)
qed

lemma equality_call_free:
  assumes ex: "\<And>q. returns_call_free (ex q)"
  shows "returns_call_free (equality n ex p)"
  unfolding equality_def
  by (auto intro!: returns_call_free_pbind comparison_call_free equality_loop_call_free ex)

lemma returns_call_free_consume:
  "(\<And>t q. returns_call_free (f t q)) \<Longrightarrow> returns_call_free (pbind (consume p t msg) f)"
  by (cases "consume p t msg") simp_all

lemma assignment_call_free:
  assumes ex: "\<And>q. returns_call_free (ex q)"
  shows "returns_call_free (assignment n E ex p)"
proof (induction n arbitrary: p)
  case 0
  show ?case by simp
next
  case (Suc n)
  have lower: "\<And>q. returns_call_free (equality (Suc n) ex q)"
    by (rule equality_call_free) (rule ex)
  have rhs: "returns_call_free (pbind (assignment n E ex p1)
      (\<lambda>expr p2. case expr of
           None \<Rightarrow> PErr msg
         | Some e \<Rightarrow> if c then PErr msg' else POk (Some (Assign idt e)) p2))"
    for p1 msg msg' c idt
    by (rule returns_call_free_pbind [OF Suc.IH]) (auto split: option.split)
  show ?case
    using lower
    by (auto intro!: returns_call_free_consume rhs simp: Let_def)
qed

lemma expression_call_free: "returns_call_free (expression n E p)"
proof (induction n arbitrary: p)
  case 0
  show ?case by simp
next
  case (Suc n)
  have "returns_call_free (assignment (Suc n) E (expression n E) p)"
    by (rule assignment_call_free) (rule Suc.IH)
  then show ?case by simp
qed

lemma expression_POk: "expression n E p = POk eo p' \<Longrightarrow> call_free_opt eo"
  using expression_call_free [of n E p] by simp

lemma assignment_POk: "assignment n E (expression m E) p = POk eo p' \<Longrightarrow> call_free_opt eo"
proof -
  have "returns_call_free (assignment n E (expression m E) p)"
    by (rule assignment_call_free) (rule expression_call_free)
  then show "assignment n E (expression m E) p = POk eo p' \<Longrightarrow> call_free_opt eo"
    by simp
qed

lemma declaration_variable_flat:
  assumes "declaration_variable n E p = POk d p'"
  shows "flat_decl d"
proof -
  from assms obtain idt p1 expr p2 where
    a: "assignment n E (expression n E) (prevance p1) = POk expr p2" and
    d: "d = DeclVar idt expr"
    unfolding declaration_variable_def
    by (auto dest!: pbind_POk split: if_splits)
  from assignment_POk [OF a] d show ?thesis by simp
qed

lemma declaration_statement_flat:
  assumes "declaration_statement n E p = POk d p'"
  shows "flat_decl d"
proof -
  from assms obtain q expr p2 where
    "expression n E q = POk expr p2" and
    "d = DeclStmt (StmtPrint expr) \<or> d = DeclStmt (StmtExpr expr)"
    unfolding declaration_statement_def statement_print_def statement_expression_def
    by (auto dest!: pbind_POk split: if_splits)
  with expression_POk [of n E q expr p2] show ?thesis by auto
qed

text \<open>
  The declaration list of a block holds no \<open>Block\<close> and no call: by induction on the
  number of steps, with the list built so far, the cursor and the result generalised.
\<close>

lemma block_loop_flat:
  "block_loop n E decls p = POk ds p' \<Longrightarrow> list_all flat_decl decls \<Longrightarrow> list_all flat_decl ds"
proof (induction n arbitrary: decls p ds p')
  case 0
  then show ?case by simp
next
  case (Suc n)
  show ?case
  proof (cases "\<not> atEnd p \<and> \<not> peek_is p RIGHT_BRACE")
    case False
    with Suc.prems show ?thesis by (auto split: if_splits)
  next
    case more: True
    show ?thesis
    proof (cases "match p LEFT_BRACE")
      case True
      with more Suc.prems(1) obtain inner p1 where
        i: "block_loop n E [] (advance p) = POk inner p1" and
        r: "block_loop n E (decls @ inner) p1 = POk ds p'"
        by (auto dest!: pbind_POk)
      from Suc.IH [OF i] have "list_all flat_decl inner" by simp
      with Suc.prems(2) have "list_all flat_decl (decls @ inner)" by simp
      from Suc.IH [OF r this] show ?thesis .
    next
      case nb: False
      show ?thesis
      proof (cases "match_kw p VAR")
        case True
        with more nb Suc.prems(1) obtain d p1 where
          i: "declaration_variable (Suc n) E (advance p) = POk d p1" and
          r: "block_loop n E (decls @ [d]) p1 = POk ds p'"
          by (auto dest!: pbind_POk)
        from declaration_variable_flat [OF i] Suc.prems(2)
        have "list_all flat_decl (decls @ [d])" by simp
        from Suc.IH [OF r this] show ?thesis .
      next
        case False
        with more nb Suc.prems(1) obtain d p1 where
          i: "declaration_statement (Suc n) E p = POk d p1" and
          r: "block_loop n E (decls @ [d]) p1 = POk ds p'"
          by (auto dest!: pbind_POk)
        from declaration_statement_flat [OF i] Suc.prems(2)
        have "list_all flat_decl (decls @ [d])" by simp
        from Suc.IH [OF r this] show ?thesis .
      qed
    qed
  qed
qed

text \<open>
  The loop only appends to the list it is given: started on \<open>decls\<close> it returns \<open>decls\<close>
  followed by what it returns when started on no declarations, and fails as that does.
\<close>

lemma block_loop_acc:
  "block_loop n E decls p
     = pbind (block_loop n E [] p) (\<lambda>rest p'. POk (decls @ rest) p')"
proof (induction n arbitrary: decls p)
  case 0
  show ?case by simp
next
  case (Suc n)
  have step: "pbind m (\<lambda>d p1. block_loop n E (decls @ [d]) p1)
      = pbind (pbind m (\<lambda>d p1. block_loop n E ([] @ [d]) p1)) (\<lambda>rest p'. POk (decls @ rest) p')"
    for m :: "Decl presult"
  proof (cases m)
    case (POk d p1)
    show ?thesis
      using Suc.IH [of "decls @ [d]" p1] Suc.IH [of "[d]" p1]
      by (cases "block_loop n E [] p1") (simp_all add: POk)
  qed simp_all
  have inner: "pbind m (\<lambda>inner p1. block_loop n E (decls @ inner) p1)
      = pbind (pbind m (\<lambda>inner p1. block_loop n E ([] @ inner) p1))
          (\<lambda>rest p'. POk (decls @ rest) p')"
    for m :: "Decl list presult"
  proof (cases m)
    case (POk inner p1)
    show ?thesis
      using Suc.IH [of "decls @ inner" p1] Suc.IH [of inner p1]
      by (cases "block_loop n E [] p1") (simp_all add: POk)
  qed simp_all
  show ?case
    using step inner by (simp del: append_Nil)
qed

lemma block_splice:
  "match p LEFT_BRACE \<Longrightarrow> block n E (advance p) = POk inner p1
   \<Longrightarrow> block_loop n E [] p1 = POk rest p'
   \<Longrightarrow> block_loop (Suc n) E decls p = POk (decls @ inner @ rest) p'"
  using block_loop_acc [of n E "decls @ inner" p1]
  by (simp add: block_def match_def peek_is_def atEnd_def)

lemma nested_block_parse:
  "parse (n + 6) E (parser_on nested_block_tokens)
     = Returns (Some (Program [Block [print_decl 1, print_decl 2, print_decl 3, print_decl 4, print_decl 5]]))"
  by (simp add: fuel parse_def program_def block_def declaration_statement_def
      statement_print_def parser_utils expr_defs token_defs nested_block_tokens_def print_decl_def print_tokens_def)

lemma scoped_assign_parse:
  "parse (n + 4) declared_x_env (parser_on scoped_assign_tokens)
     = Returns (Some (Program [Block [assign_x_decl, print_x_decl]]))"
  by (simp add: fuel parse_def program_def block_def declaration_statement_def
      statement_print_def statement_expression_def parser_utils expr_defs token_defs scoped_assign_tokens_def
      assign_x_decl_def print_x_decl_def declared_x_env_def Token0_def castString_def Let_def)

text \<open>
  The visitors of expressions without a call, and of declarations that are no block and
  hold no call, end at the scope depth at which they start, whether they return or
  throw.
\<close>

lemma keeps_depth_simps [simp]:
  "keeps_depth w (Done a w') = (scopeDepth (env w') = scopeDepth (env w))"
  "keeps_depth w (Raised x w') = (scopeDepth (env w') = scopeDepth (env w))"
  "keeps_depth w Timeout = True"
  by (simp_all add: keeps_depth_def final_world_def)

lemma keeps_depth_trans:
  "scopeDepth (env w1) = scopeDepth (env w) \<Longrightarrow> keeps_depth w1 r \<Longrightarrow> keeps_depth w r"
  by (cases r) simp_all

lemma keeps_depth_andThen:
  assumes "keeps_depth w m"
    and "\<And>a w1. m = Done a w1 \<Longrightarrow> keeps_depth w1 (f a w1)"
  shows "keeps_depth w (andThen m f)"
proof (cases m)
  case (Done a w1)
  with assms(1) have "scopeDepth (env w1) = scopeDepth (env w)" by simp
  from keeps_depth_trans [OF this assms(2) [OF Done]] Done show ?thesis by simp
next
  case (Raised x w1)
  with assms(1) show ?thesis by simp
next
  case Timeout
  then show ?thesis by simp
qed

lemma keeps_depth_visit_literal: "keeps_depth w (visit_literal w val)"
  by (simp add: visit_literal_def runTimeError_def Let_def split: any.split)

lemma keeps_depth_arithmetic_result: "keeps_depth w (arithmetic_result l r op w)"
  by (simp add: arithmetic_result_def split: option.split)

lemma keeps_depth_binary_both: "keeps_depth w (binary_both l r op w)"
  by (simp add: binary_both_def runTimeError_def keeps_depth_arithmetic_result
      split: TokenType.split option.split prod.split)

lemma keeps_depth_unary_on: "keeps_depth w (unary_on r op w)"
  by (simp add: unary_on_def runTimeError_def keeps_depth_arithmetic_result Let_def
      split: TokenType.split option.split any.split)

lemma keeps_depth_print_value: "keeps_depth w (print_value val w)"
  by (simp add: print_value_def Let_def split: option.split)

lemma keeps_depth_expr: "call_free e \<Longrightarrow> keeps_depth w (accept_expr n w e)"
proof (induction n arbitrary: w e)
  case 0
  show ?case by simp
next
  case (Suc n)
  show ?case
  proof (cases e)
    case (Literal val)
    then show ?thesis by (simp add: keeps_depth_visit_literal)
  next
    case (Unary op e1)
    with Suc.prems show ?thesis
      by (auto intro!: keeps_depth_andThen Suc.IH keeps_depth_unary_on)
  next
    case (Binary l op r)
    with Suc.prems show ?thesis
      by (auto intro!: keeps_depth_andThen Suc.IH keeps_depth_binary_both)
  next
    case (Grouping e1)
    with Suc.prems show ?thesis by (simp add: Suc.IH)
  next
    case (Assign name v)
    with Suc.prems show ?thesis
      by (auto intro!: keeps_depth_andThen Suc.IH simp: Let_def scopeDepth_setEnv)
  next
    case (Ternary c l r)
    with Suc.prems show ?thesis
      by (auto intro!: keeps_depth_andThen Suc.IH)
  next
    case (Call callee args)
    with Suc.prems show ?thesis by simp
  qed
qed

lemma keeps_depth_decl: "flat_decl d \<Longrightarrow> keeps_depth w (accept_decl n w d)"
proof (cases n)
  case 0
  then show ?thesis by simp
next
  case (Suc m)
  assume flat: "flat_decl d"
  show ?thesis
  proof (cases d)
    case (DeclStmt s)
    have "keeps_depth w (accept_stmt m w s)"
    proof (cases m)
      case 0
      then show ?thesis by simp
    next
      case (Suc k)
      with flat DeclStmt show ?thesis
        by (cases s)
          (auto intro!: keeps_depth_andThen keeps_depth_expr keeps_depth_print_value
            split: option.split)
    qed
    with Suc DeclStmt show ?thesis
      by (auto intro!: keeps_depth_andThen)
  next
    case (DeclVar idt eo)
    with Suc flat show ?thesis
      by (auto intro!: keeps_depth_andThen keeps_depth_expr simp: Let_def scopeDepth_setEnv
          split: option.split)
  next
    case (DeclFunc name params blk)
    with Suc show ?thesis
      by (auto simp: runTimeError_def scopeDepth_setEnv split: option.split)
  next
    case (Block ds)
    with flat show ?thesis by simp
  qed
qed

lemma keeps_depth_decls: "list_all flat_decl ds \<Longrightarrow> keeps_depth w (accept_decls n w ds)"
proof (induction n arbitrary: w ds)
  case 0
  show ?case by simp
next
  case (Suc n)
  show ?case
  proof (cases ds)
    case Nil
    then show ?thesis by simp
  next
    case (Cons d rest)
    with Suc.prems show ?thesis
      by (auto intro!: keeps_depth_andThen keeps_depth_decl Suc.IH)
  qed
qed

lemma region_depth:
  assumes "list_all flat_decl ds"
  shows "(accept_decls n (w\<lparr>env := addChild (env w)\<rparr>) ds = Done toks w1
          \<longrightarrow> scopeDepth (env w1) = Suc (scopeDepth (env w))
              \<and> accept_decl (Suc n) w (Block ds) = Done toks (w1\<lparr>env := removeChild (env w1)\<rparr>)
              \<and> scopeDepth (removeChild (env w1)) = scopeDepth (env w))
       \<and> (accept_decls n (w\<lparr>env := addChild (env w)\<rparr>) ds = Raised x w1
          \<longrightarrow> scopeDepth (env w1) = Suc (scopeDepth (env w)))"
proof -
  have pos: "scopeDepth (env w) = Suc (scopeDepth (env w) - 1)"
    by (cases "env w") (simp add: scopeDepth_def)
  from keeps_depth_decls [OF assms, of "w\<lparr>env := addChild (env w)\<rparr>" n]
  have k: "keeps_depth (w\<lparr>env := addChild (env w)\<rparr>) (accept_decls n (w\<lparr>env := addChild (env w)\<rparr>) ds)" .
  show ?thesis
  proof (intro conjI impI)
    assume d: "accept_decls n (w\<lparr>env := addChild (env w)\<rparr>) ds = Done toks w1"
    with k show a: "scopeDepth (env w1) = Suc (scopeDepth (env w))"
      by (simp add: scopeDepth_addChild)
    from d show "accept_decl (Suc n) w (Block ds) = Done toks (w1\<lparr>env := removeChild (env w1)\<rparr>)"
      by simp
    from a pos have "scopeDepth (env w1) = Suc (Suc (scopeDepth (env w) - 1))" by simp
    from scopeDepth_removeChild [OF this] pos
    show "scopeDepth (removeChild (env w1)) = scopeDepth (env w)" by simp
  next
    assume "accept_decls n (w\<lparr>env := addChild (env w)\<rparr>) ds = Raised x w1"
    with k show "scopeDepth (env w1) = Suc (scopeDepth (env w))"
      by (simp add: scopeDepth_addChild)
  qed
qed

lemma spliced_shares_scope:
  "accept_decls (n + 5) (world0\<lparr>env := addChild (env world0)\<rparr>) [assign_x_decl, print_x_decl]
     = Done [number 7, number 7]
        \<lparr>env = Environment Map.empty (Some (Environment [''x'' \<mapsto> number 7] None)),
         out = [''7'']\<rparr>"
  by (simp add: fuel assign_x_decl_def print_x_decl_def token_defs value_defs world0_def Token0_def)

lemma spliced_block_evaluates:
  "accept_decl (n + 6) world0 (Block [assign_x_decl, print_x_decl])
     = Done [number 7, number 7] (world0\<lparr>out := [''7'']\<rparr>)"
  by (simp add: fuel assign_x_decl_def print_x_decl_def token_defs value_defs world0_def Token0_def)

lemma child_block_hides_binding:
  "accept_decl (n + 8) world0 (Block [Block [assign_x_decl], print_x_decl])
     = Raised (RuntimeError (''Undefined variable '' @ apostrophe @ ''x'' @ apostrophe))
         (world0\<lparr>env := addChild (env world0)\<rparr>)"
  by (simp add: fuel assign_x_decl_def print_x_decl_def token_defs value_defs world0_def Token0_def)

lemma scoped_declarations_flat: "list_all flat_decl [assign_x_decl, print_x_decl]"
  by (simp add: assign_x_decl_def print_x_decl_def)

text \<open>
  Claim C9. When the parser meets a block inside a block, the declarations of the inner
  block are spliced into the declaration list of the enclosing block and no child
  \<open>Block\<close> node is kept. In general: where the loop of \<^verbatim>\<open>block\<close> stands at a left brace
  with the declarations \<open>decls\<close> parsed so far, the inner block returns \<open>inner\<close> and the
  rest of the enclosing block returns \<open>rest\<close>, the enclosing block returns \<open>decls\<close>, then
  all of \<open>inner\<close> in order, then \<open>rest\<close>; and no list \<^verbatim>\<open>block\<close> returns holds a \<open>Block\<close>
  node or a call. So \<^verbatim>\<open>{ print(1); { print(2); { print(3); } print(4); } print(5); }\<close>
  parses as one block of five print declarations, and \<^verbatim>\<open>{ { x = 7; } print(x); }\<close>
  (parsed where \<open>x\<close> is declared) as one block of the assignment and the print.

  Consequently the evaluator pushes one scope for the whole region: the declarations
  of such a block all run at the depth of the one scope pushed, and the block ends at
  the depth at which it began. Declarations written inside nested braces share the
  scope of the enclosing block: evaluated where \<open>x\<close> is not yet bound, the assignment
  binds \<open>x\<close> in the one pushed scope, the print after the inner braces reads it and
  writes 7, whereas the tree that keeps the inner block as a child loses the binding
  with the inner scope and raises the error for an undefined variable.
\<close>

theorem nested_block_spliced:
  "(match p LEFT_BRACE \<and> block n E (advance p) = POk inner p1
      \<and> block_loop n E [] p1 = POk rest p'
      \<longrightarrow> block_loop (Suc n) E decls p = POk (decls @ inner @ rest) p')
   \<and> (block n E q = POk ds q' \<longrightarrow> list_all flat_decl ds)
   \<and> \<not> flat_decl (Block body)
   \<and> parse (n + 6) E (parser_on nested_block_tokens)
       = Returns (Some (Program
           [Block [print_decl 1, print_decl 2, print_decl 3, print_decl 4, print_decl 5]]))
   \<and> parse (n + 4) declared_x_env (parser_on scoped_assign_tokens)
       = Returns (Some (Program [Block [assign_x_decl, print_x_decl]]))
   \<and> (list_all flat_decl body
        \<and> accept_decls m (w\<lparr>env := addChild (env w)\<rparr>) body = Done toks w1
      \<longrightarrow> scopeDepth (env w1) = Suc (scopeDepth (env w))
          \<and> accept_decl (Suc m) w (Block body) = Done toks (w1\<lparr>env := removeChild (env w1)\<rparr>)
          \<and> scopeDepth (removeChild (env w1)) = scopeDepth (env w))
   \<and> accept_decls (m + 5) (world0\<lparr>env := addChild (env world0)\<rparr>) [assign_x_decl, print_x_decl]
       = Done [number 7, number 7]
           \<lparr>env = Environment Map.empty (Some (Environment [''x'' \<mapsto> number 7] None)),
            out = [''7'']\<rparr>
   \<and> accept_decl (m + 6) world0 (Block [assign_x_decl, print_x_decl])
       = Done [number 7, number 7] (world0\<lparr>out := [''7'']\<rparr>)
   \<and> accept_decl (m + 8) world0 (Block [Block [assign_x_decl], print_x_decl])
       = Raised (RuntimeError (''Undefined variable '' @ apostrophe @ ''x'' @ apostrophe))
           (world0\<lparr>env := addChild (env world0)\<rparr>)"
proof -
  have splice: "block_loop (Suc n) E decls p = POk (decls @ inner @ rest) p'"
    if "match p LEFT_BRACE \<and> block n E (advance p) = POk inner p1
        \<and> block_loop n E [] p1 = POk rest p'"
    using that block_splice [of p n E inner p1 rest p' decls] by blast
  have flat: "list_all flat_decl ds" if "block n E q = POk ds q'"
    using that block_loop_flat [of n E "[]" q ds q'] by (simp add: block_def)
  have depth: "scopeDepth (env w1) = Suc (scopeDepth (env w))
          \<and> accept_decl (Suc m) w (Block body) = Done toks (w1\<lparr>env := removeChild (env w1)\<rparr>)
          \<and> scopeDepth (removeChild (env w1)) = scopeDepth (env w)"
    if "list_all flat_decl body
        \<and> accept_decls m (w\<lparr>env := addChild (env w)\<rparr>) body = Done toks w1"
    using that region_depth [of body m w toks w1] by blast
  from splice flat depth nested_block_parse [of n E] scoped_assign_parse [of n]
    spliced_shares_scope [of m] spliced_block_evaluates [of m] child_block_hides_binding [of m]
  show ?thesis by simp
qed

text \<open>
  In \<^verbatim>\<open>{ print(1); { print(2); { print(3); } print(4); } print(5); }\<close> the loop of the
  outer block meets the first inner brace at token 6 with \<^verbatim>\<open>print(1)\<close> parsed; the call of
  \<^verbatim>\<open>block\<close> after the first brace returns the five prints; and the spliced block of
  \<^verbatim>\<open>{ { x = 7; } print(x); }\<close> runs at depth 2 and ends at depth 1.
\<close>

theorem nested_block_spliced_witness:
  "match \<lparr>tokens = nested_block_tokens, current = 6, line_no = 1\<rparr> LEFT_BRACE
   \<and> block 4 env0 \<lparr>tokens = nested_block_tokens, current = 7, line_no = 1\<rparr>
       = POk [print_decl 2, print_decl 3, print_decl 4]
           \<lparr>tokens = nested_block_tokens, current = 25, line_no = 1\<rparr>
   \<and> block_loop 4 env0 [] \<lparr>tokens = nested_block_tokens, current = 25, line_no = 1\<rparr>
       = POk [print_decl 5] \<lparr>tokens = nested_block_tokens, current = 31, line_no = 1\<rparr>
   \<and> block_loop 5 env0 [print_decl 1] \<lparr>tokens = nested_block_tokens, current = 6, line_no = 1\<rparr>
       = POk [print_decl 1, print_decl 2, print_decl 3, print_decl 4, print_decl 5]
           \<lparr>tokens = nested_block_tokens, current = 31, line_no = 1\<rparr>
   \<and> block 6 env0 \<lparr>tokens = nested_block_tokens, current = 1, line_no = 1\<rparr>
       = POk [print_decl 1, print_decl 2, print_decl 3, print_decl 4, print_decl 5]
           \<lparr>tokens = nested_block_tokens, current = 31, line_no = 1\<rparr>
   \<and> list_all flat_decl [print_decl 1, print_decl 2, print_decl 3, print_decl 4, print_decl 5]
   \<and> list_all flat_decl [assign_x_decl, print_x_decl]
   \<and> scopeDepth (env world0) = 1
   \<and> scopeDepth (Environment Map.empty (Some (Environment [''x'' \<mapsto> number 7] None))) = 2
   \<and> accept_decl 6 world0 (Block [assign_x_decl, print_x_decl])
       = Done [number 7, number 7] (world0\<lparr>out := [''7'']\<rparr>)"
proof -
  let ?at = "\<lambda>i. \<lparr>tokens = nested_block_tokens, current = i, line_no = 1\<rparr>"
  have brace: "match (?at 6) LEFT_BRACE"
    by (simp add: parser_utils token_defs nested_block_tokens_def print_tokens_def)
  have inner: "block 4 env0 (advance (?at 6))
      = POk [print_decl 2, print_decl 3, print_decl 4] (?at 25)"
    by (simp add: fuel block_def declaration_statement_def statement_print_def parser_utils
        expr_defs token_defs nested_block_tokens_def print_decl_def print_tokens_def)
  have rest: "block_loop 4 env0 [] (?at 25) = POk [print_decl 5] (?at 31)"
    by (simp add: fuel block_def declaration_statement_def statement_print_def parser_utils
        expr_defs token_defs nested_block_tokens_def print_decl_def print_tokens_def)
  have "block (k + 6) env0 (?at 1)
      = POk [print_decl 1, print_decl 2, print_decl 3, print_decl 4, print_decl 5] (?at 31)" for k
    by (simp add: fuel block_def declaration_statement_def statement_print_def parser_utils
        expr_defs token_defs nested_block_tokens_def print_decl_def print_tokens_def)
  from this [of 0] have whole: "block 6 env0 (?at 1)
      = POk [print_decl 1, print_decl 2, print_decl 3, print_decl 4, print_decl 5] (?at 31)"
    by simp
  have run: "accept_decls 5 (world0\<lparr>env := addChild (env world0)\<rparr>) [assign_x_decl, print_x_decl]
      = Done [number 7, number 7]
          \<lparr>env = Environment Map.empty (Some (Environment [''x'' \<mapsto> number 7] None)),
           out = [''7'']\<rparr>"
    using spliced_shares_scope [of 0] by simp
  have adv: "advance (?at 6) = ?at 7"
    by (simp add: advance_def)
  from brace inner rest
    nested_block_spliced [of "?at 6" 4 env0 "[print_decl 2, print_decl 3, print_decl 4]"
      "?at 25" "[print_decl 5]" "?at 31" "[print_decl 1]"]
  have spliced: "block_loop 5 env0 [print_decl 1] (?at 6)
      = POk [print_decl 1, print_decl 2, print_decl 3, print_decl 4, print_decl 5] (?at 31)"
    by (simp add: eval_nat_numeral)
  from whole
    nested_block_spliced [of _ 6 env0 _ _ _ _ _ "?at 1"
      "[print_decl 1, print_decl 2, print_decl 3, print_decl 4, print_decl 5]" "?at 31"]
  have flat: "list_all flat_decl
      [print_decl 1, print_decl 2, print_decl 3, print_decl 4, print_decl 5]"
    by blast
  from run scoped_declarations_flat
    nested_block_spliced [of _ _ _ _ _ _ _ _ _ _ _ "[assign_x_decl, print_x_decl]" 5 world0
      "[number 7, number 7]"
      "\<lparr>env = Environment Map.empty (Some (Environment [''x'' \<mapsto> number 7] None)),
        out = [''7'']\<rparr>"]
  have region: "scopeDepth (Environment Map.empty (Some (Environment [''x'' \<mapsto> number 7] None)))
        = Suc (scopeDepth (env world0))
      \<and> accept_decl 6 world0 (Block [assign_x_decl, print_x_decl])
        = Done [number 7, number 7] (world0\<lparr>out := [''7'']\<rparr>)"
    by (simp add: world0_def eval_nat_numeral)
  have one: "scopeDepth (env world0) = 1"
    by (simp add: world0_def scopeDepth_def)
  from brace inner rest spliced whole flat scoped_declarations_flat region one adv
  show ?thesis by simp
qed

section \<open>Printing\<close>

text \<open>
  The \<^verbatim>\<open>size() - 2\<close> of the quote stripping, in \<^verbatim>\<open>size_t\<close>: for a string of two or more
  characters it is the length less two, and for one character it wraps around, so that
  \<^verbatim>\<open>substr(1, size() - 2)\<close> is the string without its first and its last character, and
  empty for the lone quote. The size of a \<^verbatim>\<open>std::string\<close> is below \<open>2 ^ 64\<close>.
\<close>

lemma wrap_minus_2:
  fixes l N :: nat
  assumes "2 \<le> l" and "l < N"
  shows "(l + N - 2) mod N = l - 2"
proof -
  from assms(1) have "l + N - 2 = (l - 2) + N" by simp
  moreover have "(l - 2 + N) mod N = (l - 2) mod N" by simp
  moreover from assms(2) have "(l - 2) mod N = l - 2" by simp
  ultimately show ?thesis by simp
qed

lemma unquote:
  assumes "s \<noteq> []" and "length s < 2 ^ 64"
  shows "substr s 1 (size_minus_2 s) = Some (butlast (tl s))"
proof (cases "length s = 1")
  case True
  then obtain c where "s = [c]" by (cases s) auto
  then show ?thesis by (simp add: substr_def size_minus_2_def)
next
  case False
  moreover from assms(1) have "length s \<noteq> 0" by simp
  ultimately have two: "2 \<le> length s" by arith
  from wrap_minus_2 [OF two assms(2)] have "size_minus_2 s = length s - 2"
    unfolding size_minus_2_def .
  moreover have "take (length s - 2) (drop 1 s) = butlast (tl s)"
    by (simp add: butlast_conv_take drop_Suc numeral_2_eq_2)
  ultimately show ?thesis using two assms(1) by (simp add: substr_def)
qed

text \<open>
  Claim C10. Evaluating a print statement on a value whose string form is empty throws
  the out-of-range exception of \<^verbatim>\<open>res.at(0)\<close> and prints nothing. On a value whose
  string form is not empty the statement prints one line and returns the value: the
  string form without its first and last character when both are a double quote, and
  the string form itself otherwise.
\<close>

theorem print_empty_string_out_of_range:
  "(accept_expr n w e = Done val w1 \<and> castAnyString val = []
      \<longrightarrow> accept_stmt (Suc n) w (StmtPrint (Some e)) = Raised OutOfRange w1)
   \<and> (accept_expr n w e = Done val w1 \<and> castAnyString val \<noteq> []
       \<and> length (castAnyString val) < 2 ^ 64
      \<longrightarrow> accept_stmt (Suc n) w (StmtPrint (Some e))
            = Done val (w1\<lparr>out := out w1 @
                [if hd (castAnyString val) = dquote \<and> last (castAnyString val) = dquote
                 then butlast (tl (castAnyString val))
                 else castAnyString val]\<rparr>))"
  using unquote [of "castAnyString val"]
  by (auto simp add: print_value_def Let_def)

text \<open>
  Printing the empty string throws; printing \<^verbatim>\<open>"hi"\<close> with its quotes writes \<^verbatim>\<open>hi\<close>, a
  lone double quote writes an empty line, \<^verbatim>\<open>hi\<close> without quotes and the number 7 are
  written as they are.
\<close>

theorem print_empty_string_out_of_range_witness:
  "accept_expr (Suc 0) world0 (string_literal []) = Done (string_value []) world0
   \<and> castAnyString (string_value []) = []
   \<and> accept_stmt (Suc (Suc 0)) world0 (StmtPrint (Some (string_literal []))) = Raised OutOfRange world0
   \<and> accept_expr (Suc 0) world0 (string_literal (dquote # ''hi'' @ [dquote]))
       = Done (string_value (dquote # ''hi'' @ [dquote])) world0
   \<and> castAnyString (string_value (dquote # ''hi'' @ [dquote])) \<noteq> []
   \<and> length (castAnyString (string_value (dquote # ''hi'' @ [dquote]))) < 2 ^ 64
   \<and> accept_stmt (Suc (Suc 0)) world0 (StmtPrint (Some (string_literal (dquote # ''hi'' @ [dquote]))))
       = Done (string_value (dquote # ''hi'' @ [dquote])) (world0\<lparr>out := [''hi'']\<rparr>)
   \<and> accept_stmt (Suc (Suc 0)) world0 (StmtPrint (Some (string_literal [dquote])))
       = Done (string_value [dquote]) (world0\<lparr>out := [[]]\<rparr>)
   \<and> accept_stmt (Suc (Suc 0)) world0 (StmtPrint (Some (string_literal ''hi'')))
       = Done (string_value ''hi'') (world0\<lparr>out := [''hi'']\<rparr>)
   \<and> accept_stmt (Suc (Suc 0)) world0 (StmtPrint (Some (Literal (number 7))))
       = Done (number 7) (world0\<lparr>out := [''7'']\<rparr>)"
proof -
  have lit: "accept_expr (Suc 0) world0 (string_literal s) = Done (string_value s) world0" for s
    by (simp add: value_defs string_literal_def string_value_def)
  have num: "accept_expr (Suc 0) world0 (Literal (number 7)) = Done (number 7) world0"
    by (simp add: value_defs token_defs)
  have form: "castAnyString (string_value s) = s" for s
    by (simp add: castAnyString_def string_value_def)
  have seven: "castAnyString (number 7) = ''7''"
    by (simp add: castAnyString_def token_defs)
  from lit [of "[]"] form [of "[]"]
    print_empty_string_out_of_range [of "Suc 0" world0 "string_literal []" "string_value []" world0]
  have empty: "accept_stmt (Suc (Suc 0)) world0 (StmtPrint (Some (string_literal []))) = Raised OutOfRange world0"
    by (simp del: accept_stmt.simps accept_expr.simps)
  from lit [of "dquote # ''hi'' @ [dquote]"] form [of "dquote # ''hi'' @ [dquote]"]
    print_empty_string_out_of_range [of "Suc 0" world0 "string_literal (dquote # ''hi'' @ [dquote])"
      "string_value (dquote # ''hi'' @ [dquote])" world0]
  have quoted: "accept_stmt (Suc (Suc 0)) world0 (StmtPrint (Some (string_literal (dquote # ''hi'' @ [dquote]))))
       = Done (string_value (dquote # ''hi'' @ [dquote])) (world0\<lparr>out := [''hi'']\<rparr>)"
    by (simp add: world0_def del: accept_stmt.simps accept_expr.simps)
  from lit [of "[dquote]"] form [of "[dquote]"]
    print_empty_string_out_of_range [of "Suc 0" world0 "string_literal [dquote]"
      "string_value [dquote]" world0]
  have lone: "accept_stmt (Suc (Suc 0)) world0 (StmtPrint (Some (string_literal [dquote])))
       = Done (string_value [dquote]) (world0\<lparr>out := [[]]\<rparr>)"
    by (simp add: world0_def del: accept_stmt.simps accept_expr.simps)
  from lit [of "''hi''"] form [of "''hi''"]
    print_empty_string_out_of_range [of "Suc 0" world0 "string_literal ''hi''"
      "string_value ''hi''" world0]
  have plain: "accept_stmt (Suc (Suc 0)) world0 (StmtPrint (Some (string_literal ''hi'')))
       = Done (string_value ''hi'') (world0\<lparr>out := [''hi'']\<rparr>)"
    by (simp add: world0_def dquote_def del: accept_stmt.simps accept_expr.simps)
  from num seven
    print_empty_string_out_of_range [of "Suc 0" world0 "Literal (number 7)" "number 7" world0]
  have number: "accept_stmt (Suc (Suc 0)) world0 (StmtPrint (Some (Literal (number 7))))
       = Done (number 7) (world0\<lparr>out := [''7'']\<rparr>)"
    by (simp add: world0_def dquote_def del: accept_stmt.simps accept_expr.simps)
  from lit form empty quoted lone plain number show ?thesis
    by (simp del: accept_stmt.simps accept_expr.simps)
qed

end
